theory Spec2Isabelle
  imports Main
begin

section \<open>JavaScript values, schema descriptions and match patterns\<close>

text \<open>
  One type holds the data documents, the schema descriptions and the shaped patterns, as
  one JavaScript heap of values does. Numbers are integers (no claim needs fractions or
  NaN). An object is the list of its own enumerable properties in insertion order. The
  constructors \<open>Ctor\<close>, \<open>AnyP\<close>, \<open>IntegerP\<close>, \<open>Maybe\<close>, \<open>OneOf\<close> and \<open>WhereP\<close> are the
  type tags of a schema: \<open>String\<close>, \<open>Number\<close> ... by their \<open>name\<close>, \<open>Match.Any\<close>,
  \<open>Match.Integer\<close>, \<open>Match.Maybe\<close>, \<open>Match.OneOf\<close>, and the \<open>Match.Where\<close> that \<open>Where\<close> of
  shared.js builds around \<open>validate\<close> (it keeps the argument object). A function value
  \<open>Fn arity id params\<close> carries its \<open>length\<close>, an identifier whose behaviour the
  environment gives, and the names \<open>_getParams\<close> reads off its source text. A regular
  expression is an identifier, tested by the environment.
\<close>

datatype jv =
    Undefined | Null | Bool bool | Num int | Str string | DateV
  | Arr "jv list" | Obj "(string \<times> jv) list"
  | Ctor string | AnyP | IntegerP
  | Maybe jv | OneOf "jv list" | WhereP jv
  | Fn nat nat "string list" | Regex nat

text \<open>What a call of a function value does: it throws (the thrown value, as the text
  that a template literal makes of it) or returns a value.\<close>

record env =
  call :: "nat \<Rightarrow> jv list \<Rightarrow> string + jv"
  rtest :: "nat \<Rightarrow> jv \<Rightarrow> bool"

fun getp :: "jv \<Rightarrow> string \<Rightarrow> jv" where
  "getp (Obj kvs) k = (case map_of kvs k of Some v \<Rightarrow> v | None \<Rightarrow> Undefined)"
| "getp (Arr xs) k = Undefined"
| "getp v k = Undefined"

fun hasOwn :: "jv \<Rightarrow> string \<Rightarrow> bool" where
  "hasOwn (Obj kvs) k = (k \<in> set (map fst kvs))"
| "hasOwn v k = False"

fun set_prop :: "(string \<times> jv) list \<Rightarrow> string \<Rightarrow> jv \<Rightarrow> (string \<times> jv) list" where
  "set_prop [] k v = [(k, v)]"
| "set_prop ((k', v') # kvs) k v =
     (if k' = k then (k, v) # kvs else (k', v') # set_prop kvs k v)"

definition del_prop :: "(string \<times> jv) list \<Rightarrow> string \<Rightarrow> (string \<times> jv) list" where
  "del_prop kvs k = filter (\<lambda>(k', v). k' \<noteq> k) kvs"

text \<open>JavaScript truthiness.\<close>

fun truthy :: "jv \<Rightarrow> bool" where
  "truthy Undefined = False"
| "truthy Null = False"
| "truthy (Bool b) = b"
| "truthy (Num n) = (n \<noteq> 0)"
| "truthy (Str s) = (s \<noteq> [])"
| "truthy v = True"

fun typeof :: "jv \<Rightarrow> string" where
  "typeof Undefined = ''undefined''"
| "typeof (Bool b) = ''boolean''"
| "typeof (Num n) = ''number''"
| "typeof (Str s) = ''string''"
| "typeof (Ctor c) = ''function''"
| "typeof (Fn a i ps) = ''function''"
| "typeof v = ''object''"

definition REQUIRED :: string where
  "REQUIRED = ''Missing key''"

definition allowed :: "string list" where
  "allowed = [''min'', ''max'', ''regex'', ''allow'', ''unique'', ''where'',
              ''additionalProperties'']"

text \<open>\<open>Array.isArray\<close>: \<open>Match.Integer\<close> and \<open>Match.Any\<close> are arrays to JavaScript, which
  is why \<open>isArray\<close> of shared.js excludes them.\<close>

fun Array_isArray :: "jv \<Rightarrow> bool" where
  "Array_isArray (Arr xs) = True"
| "Array_isArray IntegerP = True"
| "Array_isArray AnyP = True"
| "Array_isArray v = False"

definition isArray :: "jv \<Rightarrow> bool" where
  "isArray a = (Array_isArray a \<and> a \<noteq> IntegerP \<and> a \<noteq> AnyP)"

text \<open>Modelled from the spec: \<open>isObject\<close>, \<open>isEmpty\<close> and \<open>pick\<close> of utils.js, which is
  not among the sources. A plain nested mapping is an object; the wrappers of \<open>Match\<close>
  are instances of their own classes and are not. \<open>isEmpty\<close> holds of an object or array
  with no entry (and of a missing value); \<open>pick\<close> keeps the named keys that the object
  has, in the order they are named.\<close>

fun isObject :: "jv \<Rightarrow> bool" where
  "isObject (Obj kvs) = True"
| "isObject v = False"

fun isEmpty :: "jv \<Rightarrow> bool" where
  "isEmpty (Obj kvs) = (kvs = [])"
| "isEmpty (Arr xs) = (xs = [])"
| "isEmpty Undefined = True"
| "isEmpty Null = True"
| "isEmpty v = False"

fun object_keys :: "jv \<Rightarrow> string list" where
  "object_keys (Obj kvs) = map fst kvs"
| "object_keys v = []"

fun object_values :: "jv \<Rightarrow> jv list" where
  "object_values (Obj kvs) = map snd kvs"
| "object_values (Arr xs) = xs"
| "object_values (Maybe p) = [p]"
| "object_values (OneOf ps) = [Arr ps]"
| "object_values v = []"

fun object_entries :: "jv \<Rightarrow> (string \<times> jv) list" where
  "object_entries (Obj kvs) = kvs"
| "object_entries v = []"

definition pick :: "jv \<Rightarrow> string list \<Rightarrow> jv" where
  "pick obj keys = Obj (concat (map (\<lambda>k. if hasOwn obj k then [(k, getp obj k)] else []) keys))"

section \<open>Strings and coercions\<close>

fun digit_char :: "nat \<Rightarrow> char" where
  "digit_char n = char_of (48 + n)"

fun show_nat_fuel :: "nat \<Rightarrow> nat \<Rightarrow> string" where
  "show_nat_fuel 0 n = []"
| "show_nat_fuel (Suc f) n =
     (if n < 10 then [digit_char n] else show_nat_fuel f (n div 10) @ [digit_char (n mod 10)])"

definition show_nat :: "nat \<Rightarrow> string" where
  "show_nat n = show_nat_fuel (Suc n) n"

definition show_int :: "int \<Rightarrow> string" where
  "show_int i = (if i < 0 then CHR ''-'' # show_nat (nat (- i)) else show_nat (nat i))"

fun join :: "string \<Rightarrow> string list \<Rightarrow> string" where
  "join sep [] = []"
| "join sep [x] = x"
| "join sep (x # y # ys) = x @ sep @ join sep (y # ys)"

fun is_prefix :: "string \<Rightarrow> string \<Rightarrow> bool" where
  "is_prefix [] s = True"
| "is_prefix (p # ps) [] = False"
| "is_prefix (p # ps) (c # cs) = (p = c \<and> is_prefix ps cs)"

text \<open>\<open>String.prototype.includes\<close>.\<close>

fun str_includes :: "string \<Rightarrow> string \<Rightarrow> bool" where
  "str_includes [] sub = (sub = [])"
| "str_includes (c # cs) sub = (is_prefix sub (c # cs) \<or> str_includes cs sub)"

definition lower_char :: "char \<Rightarrow> char" where
  "lower_char c = (let n = (of_char c :: nat) in if 65 \<le> n \<and> n \<le> 90 then char_of (n + 32) else c)"

definition upper_char :: "char \<Rightarrow> char" where
  "upper_char c = (let n = (of_char c :: nat) in if 97 \<le> n \<and> n \<le> 122 then char_of (n - 32) else c)"

definition toLowerCase :: "string \<Rightarrow> string" where
  "toLowerCase s = map lower_char s"

text \<open>The text a template literal or \<open>toString\<close> makes of a value (for the values the
  schemas and documents here hold; a regular expression shows as its identifier).\<close>

fun js_to_string :: "jv \<Rightarrow> string" where
  "js_to_string Undefined = ''undefined''"
| "js_to_string Null = ''null''"
| "js_to_string (Bool b) = (if b then ''true'' else ''false'')"
| "js_to_string (Num n) = show_int n"
| "js_to_string (Str s) = s"
| "js_to_string DateV = ''[date]''"
| "js_to_string (Arr xs) = join '','' (map js_to_string xs)"
| "js_to_string (Obj kvs) = ''[object Object]''"
| "js_to_string (Ctor c) = ''function '' @ c @ ''() { [native code] }''"
| "js_to_string AnyP = ''__any__''"
| "js_to_string IntegerP = ''__integer__''"
| "js_to_string (Regex i) = ''/regex'' @ show_nat i @ ''/''"
| "js_to_string v = ''[object Object]''"

text \<open>\<open>JSON.stringify\<close> (no escaping inside strings).\<close>

fun json_stringify :: "jv \<Rightarrow> string" where
  "json_stringify (Num n) = show_int n"
| "json_stringify (Str s) = [CHR 0x22] @ s @ [CHR 0x22]"
| "json_stringify (Bool b) = (if b then ''true'' else ''false'')"
| "json_stringify Null = ''null''"
| "json_stringify (Arr xs) = ''['' @ join '','' (map json_stringify xs) @ '']''"
| "json_stringify (Obj kvs) =
     ''{'' @ join '','' (map (\<lambda>(k, v). [CHR 0x22] @ k @ [CHR 0x22] @ '':'' @ json_stringify v) kvs) @ ''}''"
| "json_stringify v = ''undefined''"

text \<open>The relational operators, on the operands the constraint evaluator meets: numbers,
  and what coerces to a number; \<open>undefined\<close> and text that is no number are NaN, and every
  comparison with NaN is false. Two strings compare by their characters.\<close>

fun parse_nat :: "string \<Rightarrow> nat \<Rightarrow> nat option" where
  "parse_nat [] acc = Some acc"
| "parse_nat (c # cs) acc =
     (let n = (of_char c :: nat) in
      if 48 \<le> n \<and> n \<le> 57 then parse_nat cs (acc * 10 + (n - 48)) else None)"

fun to_number :: "jv \<Rightarrow> int option" where
  "to_number (Num n) = Some n"
| "to_number Null = Some 0"
| "to_number (Bool b) = Some (if b then 1 else 0)"
| "to_number (Str s) = (case parse_nat s 0 of Some n \<Rightarrow> Some (int n) | None \<Rightarrow> None)"
| "to_number (Arr []) = Some 0"
| "to_number v = None"

fun str_lt :: "string \<Rightarrow> string \<Rightarrow> bool" where
  "str_lt [] [] = False"
| "str_lt [] (d # ds) = True"
| "str_lt (c # cs) [] = False"
| "str_lt (c # cs) (d # ds) =
     ((of_char c :: nat) < of_char d \<or> (c = d \<and> str_lt cs ds))"

fun js_lt :: "jv \<Rightarrow> jv \<Rightarrow> bool" where
  "js_lt (Str a) (Str b) = str_lt a b"
| "js_lt a b = (case (to_number a, to_number b) of (Some m, Some n) \<Rightarrow> m < n | _ \<Rightarrow> False)"

definition js_gt :: "jv \<Rightarrow> jv \<Rightarrow> bool" where
  "js_gt a b = js_lt b a"

text \<open>\<open>Array.prototype.includes\<close> compares primitives by value and objects by
  identity; a document's object is never the object written in the schema.\<close>

fun is_prim :: "jv \<Rightarrow> bool" where
  "is_prim Undefined = True"
| "is_prim Null = True"
| "is_prim (Bool b) = True"
| "is_prim (Num n) = True"
| "is_prim (Str s) = True"
| "is_prim v = False"

definition arr_includes :: "jv list \<Rightarrow> jv \<Rightarrow> bool" where
  "arr_includes xs x = (is_prim x \<and> x \<in> set xs)"

fun nth_or_undef :: "jv list \<Rightarrow> nat \<Rightarrow> jv" where
  "nth_or_undef [] i = Undefined"
| "nth_or_undef (x # xs) 0 = x"
| "nth_or_undef (x # xs) (Suc i) = nth_or_undef xs i"

text \<open>The elements of an array value, for destructuring and indexing.\<close>

fun elems :: "jv \<Rightarrow> jv list" where
  "elems (Arr xs) = xs"
| "elems IntegerP = [Str ''__integer__'']"
| "elems AnyP = [Str ''__any__'']"
| "elems v = []"

text \<open>\<open>Object.entries\<close> of a value that need not be an object: the entries of an array
  or of a string are its elements under their indices.\<close>

fun entries_of :: "jv \<Rightarrow> (string \<times> jv) list" where
  "entries_of (Obj kvs) = kvs"
| "entries_of (Arr xs) = zip (map show_nat [0..<length xs]) xs"
| "entries_of (Str s) = zip (map show_nat [0..<length s]) (map (\<lambda>c. Str [c]) s)"
| "entries_of v = []"

section \<open>The constraint evaluator: the qualifier checks of validate (shared.js)\<close>

text \<open>Each check gives the error fragments it pushes onto \<open>errors\<close> (\<open>Inr\<close>), or the
  exception that leaves \<open>validate\<close> uncaught (\<open>Inl\<close>, as its text).\<close>

definition isAnArray :: "jv \<Rightarrow> bool" where
  "isAnArray t = (isArray t \<or> t = Ctor ''Array'')"

definition isAnObject :: "jv \<Rightarrow> bool" where
  "isAnObject t = (isObject t \<or> t = Ctor ''Object'')"

text \<open>\<open>x.length\<close> and \<open>Object.keys(x).length\<close>; both raise on \<open>undefined\<close> and \<open>null\<close>.\<close>

fun js_length :: "jv \<Rightarrow> string + jv" where
  "js_length Undefined = Inl ''TypeError: Cannot read properties of undefined''"
| "js_length Null = Inl ''TypeError: Cannot read properties of null''"
| "js_length (Str s) = Inr (Num (int (length s)))"
| "js_length (Arr xs) = Inr (Num (int (length xs)))"
| "js_length (Obj kvs) = Inr (getp (Obj kvs) ''length'')"
| "js_length v = Inr Undefined"

fun keys_length :: "jv \<Rightarrow> string + jv" where
  "keys_length Undefined = Inl ''TypeError: Cannot convert undefined or null to object''"
| "keys_length Null = Inl ''TypeError: Cannot convert undefined or null to object''"
| "keys_length (Obj kvs) = Inr (Num (int (length kvs)))"
| "keys_length (Arr xs) = Inr (Num (int (length xs)))"
| "keys_length (Str s) = Inr (Num (int (length s)))"
| "keys_length v = Inr (Num 0)"

text \<open>Lines 91 to 97: the inline \<open>where\<close>.\<close>

definition chk_where :: "env \<Rightarrow> jv \<Rightarrow> jv \<Rightarrow> jv \<Rightarrow> string list" where
  "chk_where e x args wh =
     (if truthy wh then
        (case wh of
           Fn a i ps \<Rightarrow>
             (case call e i [x, Obj [(''min'', getp args ''min''), (''max'', getp args ''max''),
                                      (''regex'', getp args ''regex''), (''allow'', getp args ''allow''),
                                      (''unique'', getp args ''unique'')]] of
                Inl err \<Rightarrow> [''w: '' @ err]
              | Inr r \<Rightarrow> [])
         | Ctor c \<Rightarrow> []
         | _ \<Rightarrow> [''w: TypeError: where is not a function''])
      else [])"

text \<open>Lines 99 to 110: \<open>min\<close> and \<open>max\<close>.\<close>

definition count_of :: "jv \<Rightarrow> jv \<Rightarrow> string + jv" where
  "count_of t x =
     (if isAnObject t then keys_length x
      else if t = Ctor ''String'' \<or> isAnArray t then js_length x
      else Inr x)"

definition term_of :: "jv \<Rightarrow> string" where
  "term_of t =
     (if isAnObject t then ''properties''
      else if t = Ctor ''String'' then ''characters''
      else if isAnArray t then ''items'' else [])"

definition bound_of :: "jv \<Rightarrow> jv \<times> jv" where
  "bound_of b = (if Array_isArray b then (nth_or_undef (elems b) 0, nth_or_undef (elems b) 1)
                 else (b, Undefined))"

definition minmax_message :: "jv \<Rightarrow> jv \<Rightarrow> jv \<Rightarrow> jv \<Rightarrow> string" where
  "minmax_message t mn mx count =
     (let mi = fst (bound_of mn); mnErr = snd (bound_of mn);
          ma = fst (bound_of mx); mxErr = snd (bound_of mx);
          minFail = (truthy mi \<and> js_lt count mi)
      in if minFail \<and> truthy mnErr then ''w: '' @ js_to_string mnErr
         else if truthy mxErr then ''w: '' @ js_to_string mxErr
         else if js_lt count (Num 1) then ''cannot be empty''
         else ''must be ''
              @ (if truthy mn then ''at least '' @ js_to_string mn @ '' '' @ term_of t else [])
              @ (if truthy mn \<and> truthy ma then '' and '' else [])
              @ (if truthy mx then ''at most '' @ js_to_string ma @ '' '' @ term_of t else []))"

definition chk_minmax :: "jv \<Rightarrow> jv \<Rightarrow> jv \<Rightarrow> jv \<Rightarrow> string + string list" where
  "chk_minmax t x mn mx =
     (if truthy mn \<or> truthy mx then
        (case count_of t x of
           Inl err \<Rightarrow> Inl err
         | Inr count \<Rightarrow>
             (let mi = fst (bound_of mn); ma = fst (bound_of mx);
                  minFail = (truthy mi \<and> js_lt count mi)
              in if minFail \<or> (truthy ma \<and> js_gt count ma)
                 then Inr [minmax_message t mn mx count] else Inr []))
      else Inr [])"

text \<open>Lines 112 to 120: \<open>allow\<close>. With a custom message the allowed values are
  \<open>allow[0]\<close>.\<close>

definition alwErr_of :: "jv list \<Rightarrow> jv" where
  "alwErr_of allow =
     (if (\<exists>a \<in> set allow. Array_isArray a) \<and> allow \<noteq> [] \<and> typeof (last allow) = ''string''
      then last allow else Undefined)"

definition chk_allow :: "jv \<Rightarrow> jv \<Rightarrow> jv \<Rightarrow> string + string list" where
  "chk_allow t x allow =
     (if truthy allow then
        (case allow of
           Arr al \<Rightarrow>
             (let alwErr = alwErr_of al;
                  alw = (if truthy alwErr then nth_or_undef al 0 else allow);
                  fail = [if truthy alwErr then ''w: '' @ js_to_string alwErr
                          else ''must have an allowed value, not '' @ json_stringify x]
              in if isAnObject t \<or> isAnArray t then
                   (case alw of
                      Arr vs \<Rightarrow> if (\<exists>a \<in> set vs. a = x) then Inr [] else Inr fail
                    | _ \<Rightarrow> Inl ''TypeError: alw.some is not a function'')
                 else
                   (case alw of
                      Arr vs \<Rightarrow>
                        if arr_includes vs x then Inr []
                        else if x = Undefined \<or> x = Null
                        then Inl ''TypeError: Cannot read properties of undefined''
                        else if js_to_string x \<in> set (map js_to_string vs) then Inr [] else Inr fail
                    | Str s \<Rightarrow>
                        if str_includes s (js_to_string x) then Inr []
                        else Inl ''TypeError: alw.map is not a function''
                    | _ \<Rightarrow> Inl ''TypeError: alw.includes is not a function''))
         | _ \<Rightarrow> Inl ''TypeError: allow.some is not a function'')
      else Inr [])"

text \<open>Lines 122 to 125: \<open>regex\<close>.\<close>

definition chk_regex :: "env \<Rightarrow> jv \<Rightarrow> jv \<Rightarrow> string + string list" where
  "chk_regex e x regex =
     (if truthy regex then
        (let r = fst (bound_of regex); rErr = snd (bound_of regex) in
         case r of
           Regex i \<Rightarrow>
             if rtest e i x then Inr []
             else Inr [if truthy rErr then ''w: '' @ js_to_string rErr
                       else ''must match regex '' @ js_to_string r]
         | _ \<Rightarrow> Inl ''TypeError: r.test is not a function'')
      else Inr [])"

text \<open>Lines 127 to 130: \<open>unique\<close>. A \<open>Set\<close> keeps one of equal primitives, and every
  object.\<close>

fun set_size :: "jv list \<Rightarrow> nat" where
  "set_size [] = 0"
| "set_size (x # xs) = (if is_prim x \<and> x \<in> set xs then set_size xs else Suc (set_size xs))"

definition chk_unique :: "jv \<Rightarrow> jv \<Rightarrow> string + string list" where
  "chk_unique x unique =
     (if truthy unique then
        (let uErr = snd (bound_of unique);
             fail = [if truthy uErr then ''w: '' @ js_to_string uErr else ''must have unique items'']
         in case x of
              Arr xs \<Rightarrow> if set_size xs \<noteq> length xs then Inr fail else Inr []
            | Str s \<Rightarrow> if card (set s) \<noteq> length s then Inr fail else Inr []
            | Undefined \<Rightarrow> Inl ''TypeError: Cannot read properties of undefined''
            | _ \<Rightarrow> Inl ''TypeError: x is not iterable'')
      else Inr [])"

text \<open>The qualifier checks in the order of the source; the first uncaught exception
  ends them.\<close>

definition qualifier_errors :: "env \<Rightarrow> jv \<Rightarrow> jv \<Rightarrow> string + string list" where
  "qualifier_errors e x args =
     (let t = getp args ''type''; w = chk_where e x args (getp args ''where'') in
      case chk_minmax t x (getp args ''min'') (getp args ''max'') of
        Inl err \<Rightarrow> Inl err
      | Inr m \<Rightarrow>
          (case chk_allow t x (getp args ''allow'') of
             Inl err \<Rightarrow> Inl err
           | Inr a \<Rightarrow>
               (case chk_regex e x (getp args ''regex'') of
                  Inl err \<Rightarrow> Inl err
                | Inr r \<Rightarrow>
                    (case chk_unique x (getp args ''unique'') of
                       Inl err \<Rightarrow> Inl err
                     | Inr u \<Rightarrow> Inr (w @ m @ a @ r @ u)))))"

section \<open>The structural matcher\<close>

text \<open>Modelled from the spec: \<open>check\<close> and \<open>Match.test\<close> of the package meteor/check, which
  is not among the sources. An object pattern requires every key that is not wrapped as
  optional, checks each present key against its pattern and fails on a key it does not
  declare; an array pattern checks every element; an alternative succeeds when one choice
  does; a constrained node runs \<open>validate\<close>; the first failure is the one reported, as a
  message and the path of the field. The outcome \<open>Fail m p\<close> is the failure with message
  \<open>m\<close> at path \<open>p\<close>, \<open>Thrown\<close> any other exception. A document may hold a pattern that
  sends \<open>validate\<close> back to itself (line 58 reads \<open>value.type\<close> off the data), so the
  matcher and \<open>validate\<close> take fuel, and \<open>None\<close> is running out of it.\<close>

datatype outcome = Pass | Fail string string | Thrown string

definition all_digits :: "string \<Rightarrow> bool" where
  "all_digits s = (s \<noteq> [] \<and> (\<forall>c \<in> set s. 48 \<le> (of_char c :: nat) \<and> (of_char c :: nat) \<le> 57))"

definition jsKeywords :: "string list" where
  "jsKeywords = [''do'', ''if'', ''in'', ''for'', ''let'', ''new'', ''try'', ''var'', ''case'', ''else'',
     ''enum'', ''eval'', ''false'', ''null'', ''this'', ''true'', ''void'', ''with'', ''break'', ''catch'',
     ''class'', ''const'', ''super'', ''throw'', ''while'', ''yield'', ''delete'', ''export'', ''import'',
     ''public'', ''return'', ''static'', ''switch'', ''typeof'', ''default'', ''extends'', ''finally'',
     ''package'', ''private'', ''continue'', ''debugger'', ''function'', ''arguments'', ''interface'',
     ''protected'', ''implements'', ''instanceof'']"

definition ident_start :: "char \<Rightarrow> bool" where
  "ident_start c = (let n = (of_char c :: nat) in
     (65 \<le> n \<and> n \<le> 90) \<or> (97 \<le> n \<and> n \<le> 122) \<or> c = CHR ''_'' \<or> c = CHR ''$'')"

definition ident_char :: "char \<Rightarrow> bool" where
  "ident_char c = (ident_start c \<or> (48 \<le> (of_char c :: nat) \<and> (of_char c :: nat) \<le> 57) \<or> c = CHR ''.'')"

definition is_identifier :: "string \<Rightarrow> bool" where
  "is_identifier s = (case s of [] \<Rightarrow> False | c # cs \<Rightarrow> ident_start c \<and> (\<forall>d \<in> set cs. ident_char d))"

definition path_key :: "string \<Rightarrow> string" where
  "path_key key =
     (if all_digits key then ''['' @ key @ '']''
      else if \<not> is_identifier key \<or> key \<in> set jsKeywords
      then ''['' @ [CHR 0x22] @ key @ [CHR 0x22] @ '']''
      else key)"

definition prependPath :: "string \<Rightarrow> string \<Rightarrow> string" where
  "prependPath key base =
     (if base \<noteq> [] \<and> hd base \<noteq> CHR ''['' then path_key key @ ''.'' @ base
      else path_key key @ base)"

fun instanceof :: "jv \<Rightarrow> string \<Rightarrow> bool" where
  "instanceof DateV c = (c = ''Date'')"
| "instanceof (Arr xs) c = (c = ''Array'')"
| "instanceof (Regex i) c = (c = ''RegExp'')"
| "instanceof (Fn a i ps) c = (c = ''Function'')"
| "instanceof v c = False"

definition type_name :: "jv \<Rightarrow> string" where
  "type_name v = (if v = Null then ''null'' else typeof v)"

fun is_maybe :: "jv \<Rightarrow> bool" where
  "is_maybe (Maybe p) = True"
| "is_maybe v = False"

fun unwrap :: "jv \<Rightarrow> jv" where
  "unwrap (Maybe p) = p"
| "unwrap v = v"

fun test_elems :: "(jv \<Rightarrow> jv \<Rightarrow> outcome option) \<Rightarrow> jv list \<Rightarrow> jv \<Rightarrow> nat \<Rightarrow> outcome option" where
  "test_elems t [] p i = Some Pass"
| "test_elems t (x # xs) p i =
     (case t x p of
        None \<Rightarrow> None
      | Some Pass \<Rightarrow> test_elems t xs p (Suc i)
      | Some (Fail m path) \<Rightarrow> Some (Fail m (prependPath (show_nat i) path))
      | Some (Thrown s) \<Rightarrow> Some (Thrown s))"

fun test_choices :: "(jv \<Rightarrow> jv \<Rightarrow> outcome option) \<Rightarrow> jv \<Rightarrow> jv list \<Rightarrow> outcome option" where
  "test_choices t v [] =
     Some (Fail ''Failed Match.OneOf, Match.Maybe or Match.Optional validation'' [])"
| "test_choices t v (p # ps) =
     (case t v p of
        None \<Rightarrow> None
      | Some Pass \<Rightarrow> Some Pass
      | Some (Fail m path) \<Rightarrow> test_choices t v ps
      | Some (Thrown s) \<Rightarrow> Some (Thrown s))"

definition missing_keys :: "(string \<times> jv) list \<Rightarrow> (string \<times> jv) list \<Rightarrow> string list" where
  "missing_keys pat kvs =
     map fst (filter (\<lambda>(k, p). \<not> is_maybe p \<and> k \<notin> set (map fst kvs)) pat)"

fun test_entries ::
  "(jv \<Rightarrow> jv \<Rightarrow> outcome option) \<Rightarrow> (string \<times> jv) list \<Rightarrow> (string \<times> jv) list \<Rightarrow> outcome option" where
  "test_entries t pat [] = Some Pass"
| "test_entries t pat ((k, v) # kvs) =
     (case map_of pat k of
        None \<Rightarrow> Some (Fail ''Unknown key'' k)
      | Some sub \<Rightarrow>
          (case t v (unwrap sub) of
             None \<Rightarrow> None
           | Some Pass \<Rightarrow> test_entries t pat kvs
           | Some (Fail m path) \<Rightarrow> Some (Fail m (prependPath k path))
           | Some (Thrown s) \<Rightarrow> Some (Thrown s)))"

definition test_object ::
  "(jv \<Rightarrow> jv \<Rightarrow> outcome option) \<Rightarrow> (string \<times> jv) list \<Rightarrow> jv \<Rightarrow> outcome option" where
  "test_object t pat value =
     (case value of
        Obj kvs \<Rightarrow>
          (case test_entries t pat kvs of
             Some Pass \<Rightarrow>
               (case missing_keys pat kvs of
                  [] \<Rightarrow> Some Pass
                | k # ks \<Rightarrow> Some (Fail (REQUIRED @ '' '' @ [CHR 0x27] @ k @ [CHR 0x27]) []))
           | r \<Rightarrow> r)
      | Null \<Rightarrow> Some (Fail ''Expected object, got null'' [])
      | _ \<Rightarrow> if typeof value \<noteq> ''object''
             then Some (Fail (''Expected object, got '' @ typeof value) [])
             else Some (Fail ''Expected plain object'' []))"

text \<open>What a \<open>catch\<close> around \<open>c(x, type)\<close> pushes onto \<open>errors\<close>: the error thrown by
  \<open>check\<close>, whose message is \<open>Match error: m in field p\<close>, as \<open>join\<close> shows it.\<close>

definition check_message :: "string \<Rightarrow> string \<Rightarrow> string" where
  "check_message m path =
     ''Match error: '' @ m @ (if path \<noteq> [] then '' in field '' @ path else [])"

fun caught :: "outcome \<Rightarrow> string list" where
  "caught Pass = []"
| "caught (Fail m path) = [''Error: '' @ check_message m path]"
| "caught (Thrown s) = [s]"

fun index0 :: "jv \<Rightarrow> jv" where
  "index0 (Arr xs) = nth_or_undef xs 0"
| "index0 (Obj kvs) = getp (Obj kvs) ''0''"
| "index0 (Str s) = (case s of [] \<Rightarrow> Undefined | c # cs \<Rightarrow> Str [c])"
| "index0 IntegerP = Str ''__integer__''"
| "index0 AnyP = Str ''__any__''"
| "index0 v = Undefined"

fun name_of :: "jv \<Rightarrow> jv" where
  "name_of (Ctor c) = Str c"
| "name_of (Obj kvs) = getp (Obj kvs) ''name''"
| "name_of (Fn a i ps) = Str []"
| "name_of v = Undefined"

section \<open>validate (shared.js, lines 30 to 137)\<close>

text \<open>The loops of the first three branches, over the matcher \<open>t\<close> and the nested
  \<open>validate\<close> \<open>vl\<close>. They give the fragments pushed (\<open>Inr\<close>) or the outcome of a nested
  \<open>validate\<close> that threw, which leaves the enclosing one at once (\<open>Inl\<close>).\<close>

definition nested_x :: "jv \<Rightarrow> jv \<Rightarrow> jv" where
  "nested_x conds v = (if hasOwn conds ''x'' then getp conds ''x'' else v)"

fun embedded_object ::
  "(jv \<Rightarrow> jv \<Rightarrow> outcome option) \<Rightarrow> (jv \<Rightarrow> jv \<Rightarrow> outcome option) \<Rightarrow> jv \<Rightarrow>
   (string \<times> jv) list \<Rightarrow> (outcome + string list) option" where
  "embedded_object t vl ty [] = Some (Inr [])"
| "embedded_object t vl ty ((k, v) # kvs) =
     (let tk = getp ty k in
      if tk = Undefined \<or> tk = Null
      then Some (Inl (Thrown ''TypeError: Cannot destructure property type''))
      else if truthy (getp tk ''type'') then
        (case vl (nested_x tk v) tk of
           None \<Rightarrow> None
         | Some Pass \<Rightarrow> embedded_object t vl ty kvs
         | Some r \<Rightarrow> Some (Inl r))
      else
        (case t v tk of
           None \<Rightarrow> None
         | Some (Thrown s) \<Rightarrow> Some (Inl (Thrown s))
         | Some Pass \<Rightarrow> embedded_object t vl ty kvs
         | Some (Fail m path) \<Rightarrow>
             (case name_of tk of
                Str nm \<Rightarrow>
                  (case embedded_object t vl ty kvs of
                     Some (Inr es) \<Rightarrow>
                       Some (Inr ((''Expected '' @ toLowerCase nm @ '', got '' @ typeof v
                                    @ '' in field '' @ k) # es))
                   | r \<Rightarrow> r)
              | _ \<Rightarrow> Some (Inl (Thrown ''TypeError: Cannot read properties of undefined'')))))"

fun each_validate ::
  "(jv \<Rightarrow> jv \<Rightarrow> outcome option) \<Rightarrow> jv \<Rightarrow> jv list \<Rightarrow> (outcome + string list) option" where
  "each_validate vl conds [] = Some (Inr [])"
| "each_validate vl conds (v # vs) =
     (case vl (nested_x conds v) conds of
        None \<Rightarrow> None
      | Some Pass \<Rightarrow> each_validate vl conds vs
      | Some r \<Rightarrow> Some (Inl r))"

fun array_of_arrays ::
  "(jv \<Rightarrow> jv \<Rightarrow> outcome option) \<Rightarrow> (jv \<Rightarrow> jv \<Rightarrow> outcome option) \<Rightarrow> jv \<Rightarrow> jv \<Rightarrow>
   jv list \<Rightarrow> nat \<Rightarrow> (outcome + string list) option" where
  "array_of_arrays t vl x t0 [] i = Some (Inr [])"
| "array_of_arrays t vl x t0 (v # vs) i =
     (if v = Undefined \<or> v = Null
      then Some (Inl (Thrown ''TypeError: Cannot read properties of undefined''))
      else if truthy (getp v ''type'') then
        (case t x (getp v ''type'') of
           None \<Rightarrow> None
         | Some r \<Rightarrow>
             (case vl (nested_x v v) v of
                None \<Rightarrow> None
              | Some Pass \<Rightarrow>
                  (case array_of_arrays t vl x t0 vs (Suc i) of
                     Some (Inr es) \<Rightarrow> Some (Inr (caught r @ es))
                   | r' \<Rightarrow> r')
              | Some r' \<Rightarrow> Some (Inl r')))
      else
        (case t v (nth_or_undef (elems t0) i) of
           None \<Rightarrow> None
         | Some r \<Rightarrow>
             (case array_of_arrays t vl x t0 vs (Suc i) of
                Some (Inr es) \<Rightarrow> Some (Inr (caught r @ es))
              | r' \<Rightarrow> r')))"

definition structural ::
  "(jv \<Rightarrow> jv \<Rightarrow> outcome option) \<Rightarrow> (jv \<Rightarrow> jv \<Rightarrow> outcome option) \<Rightarrow> jv \<Rightarrow> jv \<Rightarrow>
   (outcome + string list) option" where
  "structural t vl x args =
     (let ty = getp args ''type'';
          typeValue = (if isObject ty then nth_or_undef (object_values ty) 0 else Bool False)
      in
      if truthy typeValue \<and> truthy (getp typeValue ''type'') then
        (if x = Undefined \<or> x = Null
         then Some (Inl (Thrown ''TypeError: Cannot convert undefined or null to object''))
         else embedded_object t vl ty (entries_of x))
      else if ty = Undefined \<or> ty = Null
      then Some (Inl (Thrown ''TypeError: Cannot read properties of undefined (reading 0)''))
      else if truthy (index0 ty) \<and> truthy (getp (index0 ty) ''type'') then
        (case t x (Arr [getp (index0 ty) ''type'']) of
           None \<Rightarrow> None
         | Some r \<Rightarrow>
             (case x of
                Arr xs \<Rightarrow>
                  (case each_validate vl (index0 ty) xs of
                     Some (Inr es) \<Rightarrow> Some (Inr (caught r @ es))
                   | r' \<Rightarrow> r')
              | _ \<Rightarrow> Some (Inl (Thrown ''TypeError: x.forEach is not a function''))))
      else if isArray ty \<and> isArray (index0 ty) then
        (case x of
           Arr xs \<Rightarrow> array_of_arrays t vl x (index0 ty) xs 0
         | _ \<Rightarrow> Some (Inl (Thrown ''TypeError: x.forEach is not a function'')))
      else if truthy (getp args ''additionalProperties'') then
        (case t (pick x (object_keys ty)) ty of
           None \<Rightarrow> None
         | Some r \<Rightarrow> Some (Inr (caught r)))
      else
        (case t x ty of
           None \<Rightarrow> None
         | Some r \<Rightarrow> Some (Inr (caught r))))"

definition finish :: "env \<Rightarrow> jv \<Rightarrow> jv \<Rightarrow> (outcome + string list) option \<Rightarrow> outcome option" where
  "finish e x args st =
     (case st of
        None \<Rightarrow> None
      | Some (Inl r) \<Rightarrow> Some r
      | Some (Inr es) \<Rightarrow>
          (case qualifier_errors e x args of
             Inl err \<Rightarrow> Some (Thrown err)
           | Inr qs \<Rightarrow>
               if es @ qs = [] then Some Pass
               else Some (Fail (join '' and '' (es @ qs)) [])))"

text \<open>\<open>testSubtree\<close> decides a value against a pattern; \<open>validate\<close> is the body of the
  \<open>Match.Where\<close> of a constrained node. A \<open>Match.Error\<close> thrown by \<open>validate\<close> with text
  \<open>m\<close> has the message \<open>Match error: m\<close>, which the matcher reports.\<close>

fun testSubtree :: "env \<Rightarrow> nat \<Rightarrow> jv \<Rightarrow> jv \<Rightarrow> outcome option"
  and validate :: "env \<Rightarrow> nat \<Rightarrow> jv \<Rightarrow> jv \<Rightarrow> outcome option" where
  "testSubtree e 0 value pattern = None"
| "testSubtree e (Suc n) value pattern =
     (case pattern of
        AnyP \<Rightarrow> Some Pass
      | Ctor c \<Rightarrow>
          if c = ''String'' \<or> c = ''Number'' \<or> c = ''Boolean'' \<or> c = ''Function'' then
            (if typeof value = toLowerCase c then Some Pass
             else Some (Fail (''Expected '' @ toLowerCase c @ '', got '' @ type_name value) []))
          else if c = ''Object'' then
            (case value of
               Obj kvs \<Rightarrow> Some Pass
             | _ \<Rightarrow> test_object (\<lambda>v p. Some Pass) [] value)
          else if instanceof value c then Some Pass
          else Some (Fail (''Expected '' @ c) [])
      | Undefined \<Rightarrow>
          if value = Undefined then Some Pass
          else Some (Fail (''Expected undefined, got '' @ type_name value) [])
      | Null \<Rightarrow>
          if value = Null then Some Pass
          else Some (Fail (''Expected null, got '' @ json_stringify value) [])
      | Str s \<Rightarrow>
          if value = pattern then Some Pass
          else Some (Fail (''Expected '' @ s @ '', got '' @ json_stringify value) [])
      | Num k \<Rightarrow>
          if value = pattern then Some Pass
          else Some (Fail (''Expected '' @ show_int k @ '', got '' @ json_stringify value) [])
      | Bool b \<Rightarrow>
          if value = pattern then Some Pass
          else Some (Fail (''Expected '' @ js_to_string pattern @ '', got '' @ json_stringify value) [])
      | IntegerP \<Rightarrow>
          (case value of
             Num k \<Rightarrow>
               if - 2147483648 \<le> k \<and> k \<le> 2147483647 then Some Pass
               else Some (Fail (''Expected Integer, got '' @ show_int k) [])
           | _ \<Rightarrow> Some (Fail (''Expected Integer, got '' @ json_stringify value) []))
      | Arr ps \<Rightarrow>
          if length ps \<noteq> 1
          then Some (Fail ''Bad pattern: arrays must have one type element'' [])
          else (case value of
                  Arr xs \<Rightarrow> test_elems (\<lambda>v p. testSubtree e n v p) xs (hd ps) 0
                | _ \<Rightarrow> Some (Fail (''Expected array, got '' @ json_stringify value) []))
      | WhereP args \<Rightarrow>
          (case validate e n value args of
             None \<Rightarrow> None
           | Some Pass \<Rightarrow> Some Pass
           | Some (Fail m path) \<Rightarrow> Some (Fail (''Match error: '' @ m) [])
           | Some (Thrown s) \<Rightarrow> Some (Thrown s))
      | Maybe p \<Rightarrow> test_choices (\<lambda>v p. testSubtree e n v p) value [Undefined, Null, p]
      | OneOf ps \<Rightarrow> test_choices (\<lambda>v p. testSubtree e n v p) value ps
      | Fn a i ps \<Rightarrow> Some (Fail ''Expected particular constructor'' [])
      | Obj pat \<Rightarrow> test_object (\<lambda>v p. testSubtree e n v p) pat value
      | DateV \<Rightarrow> test_object (\<lambda>v p. testSubtree e n v p) [] value
      | Regex i \<Rightarrow> test_object (\<lambda>v p. testSubtree e n v p) [] value)"
| "validate e 0 x args = None"
| "validate e (Suc n) x args =
     finish e x args
       (structural (\<lambda>v p. testSubtree e n v p) (\<lambda>v a. validate e n v a) x args)"

section \<open>The shaper: getValue and shape (shared.js)\<close>

text \<open>\<open>getValue\<close> unwraps an optional or an alternative: \<open>Object.values(v)[0]\<close> is the
  pattern of a \<open>Maybe\<close> and the array of choices of a \<open>OneOf\<close>.\<close>

fun gv_optional :: "jv \<Rightarrow> bool" where
  "gv_optional (Maybe p) = True"
| "gv_optional v = False"

fun gv_anyOf :: "jv \<Rightarrow> bool" where
  "gv_anyOf (OneOf ps) = True"
| "gv_anyOf v = False"

fun gv_value :: "jv \<Rightarrow> jv" where
  "gv_value (Maybe p) = p"
| "gv_value (OneOf ps) = Arr ps"
| "gv_value v = v"

definition Optional :: "jv \<Rightarrow> jv" where
  "Optional t = Maybe t"

definition Where :: "jv \<Rightarrow> jv" where
  "Where args = WhereP args"

text \<open>The conditions of a mapping with a \<open>type\<close> key, and the dependencies of its
  \<open>where\<close>: the parameter names other than the field's own, of a function of one
  parameter.\<close>

definition conditions_of :: "(string \<times> jv) list \<Rightarrow> (string \<times> jv) list" where
  "conditions_of kvs = del_prop kvs ''type''"

definition deps_of :: "string \<Rightarrow> jv \<Rightarrow> string list" where
  "deps_of k wh = (case wh of Fn a i ps \<Rightarrow> if a = 1 then filter (\<lambda>n. n \<noteq> k) ps else [] | _ \<Rightarrow> [])"

definition not_allowed :: "(string \<times> jv) list \<Rightarrow> bool" where
  "not_allowed conds = (\<exists>i \<in> set (map fst conds). i \<notin> set allowed)"

definition mk_rule :: "string list \<Rightarrow> jv \<Rightarrow> string list \<Rightarrow> jv" where
  "mk_rule path wh deps =
     Obj [(''path'', Arr (map Str path)), (''rule'', wh), (''deps'', Arr (map Str deps))]"

definition maybeOptionalize :: "bool \<Rightarrow> bool \<Rightarrow> jv \<Rightarrow> jv" where
  "maybeOptionalize optionalize isOptional v = (if optionalize \<and> \<not> isOptional then Optional v else v)"

definition constrained :: "string \<Rightarrow> jv \<Rightarrow> (string \<times> jv) list \<Rightarrow> jv" where
  "constrained k ty conds =
     Where (Obj ((''type'', ty) #
       (if deps_of k (getp (Obj conds) ''where'') \<noteq> [] then del_prop conds ''where'' else conds)))"

text \<open>\<open>sculpt\<close>: \<open>sculpt_field\<close> is one step of the \<open>reduce\<close> (the value stored at the key
  and the rules pushed meanwhile), \<open>sculpt_props\<close> the walk over the entries of an object
  and \<open>sculpt_elems\<close> the walk over those of an array, whose keys are the indices.\<close>

fun sculpt_field :: "bool \<Rightarrow> string list \<Rightarrow> bool \<Rightarrow> bool \<Rightarrow> string \<Rightarrow> jv \<Rightarrow> jv \<times> jv list"
  and sculpt_props ::
    "bool \<Rightarrow> string list \<Rightarrow> bool \<Rightarrow> bool \<Rightarrow> (string \<times> jv) list \<Rightarrow> (string \<times> jv) list \<times> jv list"
  and sculpt_elems :: "bool \<Rightarrow> string list \<Rightarrow> bool \<Rightarrow> bool \<Rightarrow> nat \<Rightarrow> jv list \<Rightarrow> jv list \<times> jv list"
where
  "sculpt_field opt cur skip isOpt k (Maybe p) =
     (let path = (if skip then cur else cur @ [k]);
          (n, rs) = sculpt_field opt path True True ''pattern'' p
      in (Optional n, rs))"
| "sculpt_field opt cur skip isOpt k (OneOf ps) =
     (let path = (if skip then cur else cur @ [k]);
          (ns, rs) = sculpt_elems opt path True False 0 ps
      in (maybeOptionalize opt isOpt (OneOf ns), rs))"
| "sculpt_field opt cur skip isOpt k (Obj kvs) =
     (let path = (if skip then cur else cur @ [k]) in
      if hasOwn (Obj kvs) ''type'' then
        (let ty = getp (Obj kvs) ''type''; conds = conditions_of kvs;
             wh = getp (Obj conds) ''where''; deps = deps_of k wh;
             pushed = (if deps \<noteq> [] then [mk_rule path wh deps] else [])
         in if not_allowed conds then
              (let (fs, rs) = sculpt_props opt path False False kvs
               in (maybeOptionalize opt isOpt (Obj fs), rs @ pushed))
            else if conds = [] then (maybeOptionalize opt isOpt ty, pushed)
            else if gv_optional ty then (Optional (constrained k (gv_value ty) conds), pushed)
            else (maybeOptionalize opt isOpt (constrained k ty conds), pushed))
      else
        (let (fs, rs) = sculpt_props opt path False False kvs
         in (maybeOptionalize opt isOpt (Obj fs), rs)))"
| "sculpt_field opt cur skip isOpt k (Arr xs) =
     (let path = (if skip then cur else cur @ [k]) in
      if isArray (nth_or_undef xs 0)
      then (maybeOptionalize opt isOpt (Arr [Where (Obj [(''type'', Arr xs)])]), [])
      else (let (ns, rs) = sculpt_elems opt path False False 0 xs
            in (maybeOptionalize opt isOpt (Arr ns), rs)))"
| "sculpt_field opt cur skip isOpt k v = (maybeOptionalize opt isOpt v, [])"
| "sculpt_props opt cur skip isOpt [] = ([], [])"
| "sculpt_props opt cur skip isOpt ((k, v) # kvs) =
     (let (n, rs) = sculpt_field opt cur skip isOpt k v;
          (fs, rs') = sculpt_props opt cur skip isOpt kvs
      in ((k, n) # fs, rs @ rs'))"
| "sculpt_elems opt cur skip isOpt i [] = ([], [])"
| "sculpt_elems opt cur skip isOpt i (v # vs) =
     (let (n, rs) = sculpt_field opt cur skip isOpt (show_nat i) v;
          (ns, rs') = sculpt_elems opt cur skip isOpt (Suc i) vs
      in (n # ns, rs @ rs'))"

text \<open>\<open>shape\<close> stores the rules under \<open>$rules\<close> when there are some. The mark \<open>_shaped\<close>
  is a symbol, outside the enumerable properties: a schema handed to \<open>check\<close> is the
  object with that mark beside it.\<close>

definition shape_opt :: "bool \<Rightarrow> jv \<Rightarrow> jv" where
  "shape_opt optionalize obj =
     (let (fs, rs) = sculpt_props optionalize [] False False (object_entries obj)
      in Obj (if rs \<noteq> [] then set_prop fs ''$rules'' (Arr rs) else fs))"

definition shape :: "jv \<Rightarrow> jv" where
  "shape obj = shape_opt False obj"

section \<open>deepPartialify (easy-schema-server.js, lines 60 to 110)\<close>

fun dp_field :: "string list \<Rightarrow> bool \<Rightarrow> string \<Rightarrow> jv \<Rightarrow> jv \<times> jv list"
  and dp_props :: "string list \<Rightarrow> bool \<Rightarrow> (string \<times> jv) list \<Rightarrow> (string \<times> jv) list \<times> jv list"
  and dp_elems :: "string list \<Rightarrow> bool \<Rightarrow> nat \<Rightarrow> jv list \<Rightarrow> jv list \<times> jv list"
where
  "dp_field cur skip k (Maybe p) =
     (let path = (if skip then cur else cur @ [k]);
          (n, rs) = dp_field path True ''pattern'' p
      in (Optional n, rs))"
| "dp_field cur skip k (OneOf ps) =
     (let path = (if skip then cur else cur @ [k]);
          (ns, rs) = dp_elems path True 0 ps
      in (Optional (OneOf ns), rs))"
| "dp_field cur skip k (Obj kvs) =
     (let path = (if skip then cur else cur @ [k]) in
      if hasOwn (Obj kvs) ''type'' then
        (let ty = getp (Obj kvs) ''type''; conds = conditions_of kvs;
             wh = getp (Obj conds) ''where''; deps = deps_of k wh;
             pushed = (if deps \<noteq> [] then [mk_rule path wh deps] else [])
         in if not_allowed conds then
              (let (fs, rs) = dp_props [] False kvs
               in (Optional (Obj fs), rs @ pushed))
            else if conds = [] then (Optional ty, pushed)
            else if gv_optional ty then (Optional (constrained k (gv_value ty) conds), pushed)
            else (Optional (constrained k ty conds), pushed))
      else
        (let (fs, rs) = dp_props path False kvs
         in (Optional (Obj fs), rs)))"
| "dp_field cur skip k (Arr xs) =
     (let path = (if skip then cur else cur @ [k]) in
      if isArray (nth_or_undef xs 0)
      then (Optional (Arr [Where (Obj [(''type'', Arr xs)])]), [])
      else (let (ns, rs) = dp_elems path False 0 xs
            in (Optional (Arr ns), rs)))"
| "dp_field cur skip k v = (Optional v, [])"
| "dp_props cur skip [] = ([], [])"
| "dp_props cur skip ((k, v) # kvs) =
     (let (n, rs) = dp_field cur skip k v;
          (fs, rs') = dp_props cur skip kvs
      in ((k, n) # fs, rs @ rs'))"
| "dp_elems cur skip i [] = ([], [])"
| "dp_elems cur skip i (v # vs) =
     (let (n, rs) = dp_field cur skip (show_nat i) v;
          (ns, rs') = dp_elems cur skip (Suc i) vs
      in (n # ns, rs @ rs'))"

definition deepPartialify :: "jv \<Rightarrow> jv" where
  "deepPartialify obj =
     (let (fs, rs) = dp_props [] False (object_entries obj)
      in Obj (if rs \<noteq> [] then set_prop fs ''$rules'' (Arr rs) else fs))"

section \<open>The dependency rule engine: extract and enforce (shared.js)\<close>

text \<open>\<open>extract\<close> follows the path; at its last key, when that is \<open>0\<close>, it gives the
  array itself (or the values of the object). Reading a key off \<open>undefined\<close> raises.\<close>

fun index_prop :: "jv \<Rightarrow> string \<Rightarrow> string + jv" where
  "index_prop Undefined k = Inl ''TypeError: Cannot read properties of undefined''"
| "index_prop Null k = Inl ''TypeError: Cannot read properties of null''"
| "index_prop (Arr xs) k =
     (case parse_nat k 0 of Some i \<Rightarrow> if k \<noteq> [] then Inr (nth_or_undef xs i) else Inr Undefined
      | None \<Rightarrow> Inr Undefined)"
| "index_prop v k = Inr (getp v k)"

fun extract_at :: "jv \<Rightarrow> string list \<Rightarrow> string + jv" where
  "extract_at acc [] = Inr acc"
| "extract_at acc [key] =
     (if key = ''0'' then
        (if Array_isArray acc then Inr acc
         else if acc = Undefined \<or> acc = Null
         then Inl ''TypeError: Cannot convert undefined or null to object''
         else Inr (Arr (object_values acc)))
      else index_prop acc key)"
| "extract_at acc (key # keys) =
     (case index_prop acc key of Inl err \<Rightarrow> Inl err | Inr v \<Rightarrow> extract_at v keys)"

text \<open>\<open>ruleData.every(d => rule(d))\<close>: the rule runs on the elements in order, up to the
  first that returns a falsy value; an exception leaves at once.\<close>

definition call_rule :: "env \<Rightarrow> jv \<Rightarrow> jv \<Rightarrow> string + jv" where
  "call_rule e rule d =
     (case rule of
        Fn a i ps \<Rightarrow> call e i [d]
      | Ctor c \<Rightarrow> Inr (Str [])
      | _ \<Rightarrow> Inl ''TypeError: rule is not a function'')"

fun every_rule :: "env \<Rightarrow> jv \<Rightarrow> jv list \<Rightarrow> string + jv" where
  "every_rule e rule [] = Inr (Bool True)"
| "every_rule e rule (d # ds) =
     (case call_rule e rule d of
        Inl err \<Rightarrow> Inl err
      | Inr r \<Rightarrow> if truthy r then every_rule e rule ds else Inr (Bool False))"

definition path_strings :: "jv \<Rightarrow> string list" where
  "path_strings p = map js_to_string (elems p)"

text \<open>One matched rule: the error it pushes, if any.\<close>

definition run_rule :: "env \<Rightarrow> jv \<Rightarrow> jv \<Rightarrow> (string \<times> string) list" where
  "run_rule e data r =
     (let path = path_strings (getp r ''path''); rule = getp r ''rule'';
          ruleData = (if length path = 1 then Inr data else extract_at data (butlast path));
          res = (case ruleData of
                   Inl err \<Rightarrow> Inl err
                 | Inr rd \<Rightarrow> (case rd of Arr ds \<Rightarrow> every_rule e rule ds | _ \<Rightarrow> call_rule e rule rd))
      in case res of
           Inl err \<Rightarrow> [(join ''.'' path, ''w: '' @ err)]
         | Inr v \<Rightarrow> [])"

datatype enforced = Enforced | Errors "(string \<times> string) list" | Raised string

definition enforce :: "env \<Rightarrow> jv \<Rightarrow> jv \<Rightarrow> enforced" where
  "enforce e data rules =
     (if \<not> truthy rules then Enforced
      else case rules of
        Arr rs \<Rightarrow>
          (if data = Undefined \<or> data = Null
           then Raised ''TypeError: Cannot convert undefined or null to object''
           else
             (let keys = object_keys data;
                  matched = filter (\<lambda>r. arr_includes (map Str keys) (nth_or_undef (elems (getp r ''path'')) 0)) rs;
                  errors = concat (map (run_rule e data) matched)
              in if errors \<noteq> [] then Errors errors else Enforced))
      | _ \<Rightarrow> Raised ''TypeError: rules.filter is not a function'')"

section \<open>The update-operator normalizer (easy-schema-server.js, lines 292 to 312)\<close>

definition is_digit :: "char \<Rightarrow> bool" where
  "is_digit c = (48 \<le> (of_char c :: nat) \<and> (of_char c :: nat) \<le> 57)"

definition is_word :: "char \<Rightarrow> bool" where
  "is_word c = (let n = (of_char c :: nat) in
     (48 \<le> n \<and> n \<le> 57) \<or> (65 \<le> n \<and> n \<le> 90) \<or> (97 \<le> n \<and> n \<le> 122) \<or> n = 95)"

text \<open>\<open>k.replace(/\$\[\w*]|\$|\d+/g, '0')\<close>. The counter \<open>skip\<close> is the number of
  characters still to drop of the match that has been replaced.\<close>

definition filter_len :: "string \<Rightarrow> nat option" where
  "filter_len s =
     (case s of
        c # d # rest \<Rightarrow>
          if c = CHR ''$'' \<and> d = CHR ''[''
          then (case dropWhile is_word rest of
                  r # rs \<Rightarrow> if r = CHR '']'' then Some (length (takeWhile is_word rest) + 3) else None
                | [] \<Rightarrow> None)
          else None
      | _ \<Rightarrow> None)"

fun replace_markers :: "nat \<Rightarrow> string \<Rightarrow> string" where
  "replace_markers skip [] = []"
| "replace_markers skip (c # cs) =
     (if skip > 0 then replace_markers (skip - 1) cs
      else case filter_len (c # cs) of
             Some n \<Rightarrow> CHR ''0'' # replace_markers (n - 1) cs
           | None \<Rightarrow>
               if c = CHR ''$'' then CHR ''0'' # replace_markers 0 cs
               else if is_digit c then CHR ''0'' # replace_markers (length (takeWhile is_digit cs)) cs
               else c # replace_markers 0 cs)"

definition endsWith :: "string \<Rightarrow> string \<Rightarrow> bool" where
  "endsWith s suf = is_prefix (rev suf) (rev s)"

text \<open>\<open>replaced.replace(/.0$/, "")\<close>: the dot of the pattern is any character.\<close>

definition strip_last :: "string \<Rightarrow> string" where
  "strip_last s =
     (if length s \<ge> 2 \<and> last s = CHR ''0'' \<and> last (butlast s) \<noteq> CHR 0x0A
      then butlast (butlast s) else s)"

text \<open>\<open>Object.keys(v)\<close> of the operand: it raises on \<open>undefined\<close> and \<open>null\<close>; the keys
  of a string or an array are its indices.\<close>

fun keys_of :: "jv \<Rightarrow> string + string list" where
  "keys_of Undefined = Inl ''TypeError: Cannot convert undefined or null to object''"
| "keys_of Null = Inl ''TypeError: Cannot convert undefined or null to object''"
| "keys_of (Obj kvs) = Inr (map fst kvs)"
| "keys_of (Arr xs) = Inr (map show_nat [0..<length xs])"
| "keys_of (Str s) = Inr (map show_nat [0..<length s])"
| "keys_of v = Inr []"

fun values_of :: "jv \<Rightarrow> jv list" where
  "values_of (Obj kvs) = map snd kvs"
| "values_of (Arr xs) = xs"
| "values_of (Str s) = map (\<lambda>c. Str [c]) s"
| "values_of v = []"

definition transformValue :: "bool \<Rightarrow> bool \<Rightarrow> bool \<Rightarrow> bool \<Rightarrow> jv \<Rightarrow> string + jv" where
  "transformValue isArrayOperator endsWithPositionalOperator isCurrentDateOperator isBitOperator v =
     (if isArrayOperator \<or> endsWithPositionalOperator then
        (case keys_of v of
           Inl err \<Rightarrow> Inl err
         | Inr ks \<Rightarrow> if ''$each'' \<in> set ks then Inr (nth_or_undef (values_of v) 0) else Inr (Arr [v]))
      else if isCurrentDateOperator then Inr DateV
      else if isBitOperator then
        (if v = Undefined \<or> v = Null
         then Inl ''TypeError: Cannot convert undefined or null to object''
         else Inr (nth_or_undef (values_of v) 0))
      else Inr v)"

fun transformEntries ::
  "bool \<Rightarrow> bool \<Rightarrow> bool \<Rightarrow> (string \<times> jv) list \<Rightarrow> (string \<times> jv) list \<Rightarrow> string + (string \<times> jv) list" where
  "transformEntries ao cd bo acc [] = Inr acc"
| "transformEntries ao cd bo acc ((k, v) # kvs) =
     (let replaced = replace_markers 0 k; newKey = strip_last replaced in
      case transformValue ao (endsWith replaced ''.0'') cd bo v of
        Inl err \<Rightarrow> Inl err
      | Inr w \<Rightarrow> transformEntries ao cd bo (set_prop acc newKey w) kvs)"

definition transformObject :: "jv \<Rightarrow> bool \<Rightarrow> bool \<Rightarrow> bool \<Rightarrow> string + (string \<times> jv) list" where
  "transformObject obj isArrayOperator isCurrentDateOperator isBitOperator =
     (if obj = Undefined \<or> obj = Null
      then Inl ''TypeError: Cannot convert undefined or null to object''
      else transformEntries isArrayOperator isCurrentDateOperator isBitOperator [] (entries_of obj))"

definition supportedOperators :: "string list" where
  "supportedOperators = [''$set'', ''$setOnInsert'', ''$inc'', ''$addToSet'', ''$push'', ''$min'',
                         ''$max'', ''$mul'', ''$currentDate'', ''$bit'']"

definition assign_all :: "(string \<times> jv) list \<Rightarrow> (string \<times> jv) list \<Rightarrow> (string \<times> jv) list" where
  "assign_all acc kvs = foldl (\<lambda>a (k, v). set_prop a k v) acc kvs"

fun reduceModifier :: "(string \<times> jv) list \<Rightarrow> (string \<times> jv) list \<Rightarrow> string + (string \<times> jv) list" where
  "reduceModifier acc [] = Inr acc"
| "reduceModifier acc ((k, v) # kvs) =
     (if k \<notin> set supportedOperators then
        reduceModifier (if \<not> is_prefix ''$'' k then set_prop acc k v else acc) kvs
      else case transformObject v (k \<in> set [''$addToSet'', ''$push'']) (k = ''$currentDate'') (k = ''$bit'') of
             Inl err \<Rightarrow> Inl err
           | Inr t \<Rightarrow> reduceModifier (assign_all acc t) kvs)"

text \<open>Modelled from the spec: \<open>flatten\<close> and \<open>unflatten\<close> of the package flat, which is not
  among the sources. \<open>flatten\<close> with \<open>safe: true\<close> joins the keys of nested objects with
  dots and keeps arrays (and empty objects) as values. \<open>unflatten\<close> first flattens every
  value, arrays too, then rebuilds the document key by key: a segment that is a number
  makes its parent an array. A key that runs into a value already there that is no object
  is left out.\<close>

fun flatten_into :: "string \<Rightarrow> (string \<times> jv) list \<Rightarrow> (string \<times> jv) list \<Rightarrow> (string \<times> jv) list" where
  "flatten_into prev out [] = out"
| "flatten_into prev out ((k, v) # kvs) =
     (let newKey = (if prev \<noteq> [] then prev @ ''.'' @ k else k) in
      case v of
        Obj sub \<Rightarrow>
          if sub \<noteq> [] then flatten_into prev (flatten_into newKey out sub) kvs
          else flatten_into prev (set_prop out newKey v) kvs
      | _ \<Rightarrow> flatten_into prev (set_prop out newKey v) kvs)"

definition flatten_safe :: "(string \<times> jv) list \<Rightarrow> (string \<times> jv) list" where
  "flatten_safe kvs = flatten_into [] [] kvs"

fun flatten_all :: "string \<Rightarrow> (string \<times> jv) list \<Rightarrow> jv \<Rightarrow> (string \<times> jv) list"
  and flatten_all_props :: "string \<Rightarrow> (string \<times> jv) list \<Rightarrow> (string \<times> jv) list \<Rightarrow> (string \<times> jv) list"
  and flatten_all_elems :: "string \<Rightarrow> (string \<times> jv) list \<Rightarrow> nat \<Rightarrow> jv list \<Rightarrow> (string \<times> jv) list"
where
  "flatten_all key out (Obj kvs) = (if kvs = [] then set_prop out key (Obj []) else flatten_all_props key out kvs)"
| "flatten_all key out (Arr xs) = (if xs = [] then set_prop out key (Arr []) else flatten_all_elems key out 0 xs)"
| "flatten_all key out v = set_prop out key v"
| "flatten_all_props prev out [] = out"
| "flatten_all_props prev out ((k, v) # kvs) =
     flatten_all_props prev (flatten_all (prev @ ''.'' @ k) out v) kvs"
| "flatten_all_elems prev out i [] = out"
| "flatten_all_elems prev out i (v # vs) =
     flatten_all_elems prev (flatten_all (prev @ ''.'' @ show_nat i) out v) (Suc i) vs"

fun split_on :: "char \<Rightarrow> string \<Rightarrow> string \<Rightarrow> string list" where
  "split_on d cur [] = [rev cur]"
| "split_on d cur (c # cs) = (if c = d then rev cur # split_on d [] cs else split_on d (c # cur) cs)"

definition getkey :: "string \<Rightarrow> nat option" where
  "getkey k = parse_nat k 0"

fun list_put :: "jv list \<Rightarrow> nat \<Rightarrow> jv \<Rightarrow> jv list" where
  "list_put [] 0 v = [v]"
| "list_put [] (Suc i) v = Undefined # list_put [] i v"
| "list_put (x # xs) 0 v = v # xs"
| "list_put (x # xs) (Suc i) v = x # list_put xs i v"

definition read_key :: "jv \<Rightarrow> string \<Rightarrow> jv" where
  "read_key r k =
     (case r of
        Arr xs \<Rightarrow> (case getkey k of Some i \<Rightarrow> nth_or_undef xs i | None \<Rightarrow> Undefined)
      | _ \<Rightarrow> getp r k)"

definition write_key :: "jv \<Rightarrow> string \<Rightarrow> jv \<Rightarrow> jv" where
  "write_key r k v =
     (case r of
        Arr xs \<Rightarrow> (case getkey k of Some i \<Rightarrow> Arr (list_put xs i v) | None \<Rightarrow> r)
      | Obj kvs \<Rightarrow> Obj (set_prop kvs (case getkey k of Some i \<Rightarrow> show_nat i | None \<Rightarrow> k) v)
      | _ \<Rightarrow> r)"

fun set_path :: "jv \<Rightarrow> string list \<Rightarrow> jv \<Rightarrow> jv option" where
  "set_path r [] leaf = Some r"
| "set_path r [k] leaf = Some (write_key r k leaf)"
| "set_path r (k # k2 # ks) leaf =
     (let cur = read_key r k in
      if \<not> (isObject cur \<or> Array_isArray cur) \<and> cur \<noteq> Undefined then None
      else (let child = (if cur = Undefined then (if getkey k2 \<noteq> None then Arr [] else Obj []) else cur)
            in case set_path child (k2 # ks) leaf of
                 None \<Rightarrow> None
               | Some c \<Rightarrow> Some (write_key r k c)))"

definition unflatten :: "jv \<Rightarrow> jv" where
  "unflatten target =
     (case target of
        Obj kvs \<Rightarrow>
          foldl (\<lambda>r (k, v). case set_path r (split_on CHR ''.'' [] k) v of None \<Rightarrow> r | Some r' \<Rightarrow> r')
            (Obj []) (foldl (\<lambda>out (k, v). flatten_all k out v) [] kvs)
      | _ \<Rightarrow> target)"

definition transformModifier :: "jv \<Rightarrow> string + jv" where
  "transformModifier modifier =
     (case reduceModifier [] (object_entries modifier) of
        Inl err \<Rightarrow> Inl err
      | Inr acc \<Rightarrow> Inr (Obj (flatten_safe acc)))"

definition hasOperators :: "jv \<Rightarrow> bool" where
  "hasOperators obj = (\<exists>k \<in> set (object_keys obj). str_includes k ''$'')"

section \<open>check (easy-schema-server.js, lines 321 to 350)\<close>

text \<open>The error entry built in the \<open>catch\<close> of \<open>check\<close>.\<close>

record verror =
  ve_name :: jv
  ve_type :: string
  ve_message :: string
  ve_path :: "string option"

definition is_space :: "char \<Rightarrow> bool" where
  "is_space c = (c = CHR '' '' \<or> c = CHR 0x09 \<or> c = CHR 0x0A \<or> c = CHR 0x0D)"

text \<open>\<open>m.replace(/\b(Match error:|w:|in field\s\S*)/g, '')\<close>: every alternative starts
  with a letter, so the word boundary asks that no word character comes before.\<close>

definition mark_len :: "string \<Rightarrow> nat option" where
  "mark_len s =
     (if is_prefix ''Match error:'' s then Some 12
      else if is_prefix ''w:'' s then Some 2
      else if is_prefix ''in field'' s then
        (case drop 8 s of
           c # rest \<Rightarrow> if is_space c then Some (9 + length (takeWhile (\<lambda>d. \<not> is_space d) rest)) else None
         | [] \<Rightarrow> None)
      else None)"

fun strip_marks :: "bool \<Rightarrow> nat \<Rightarrow> string \<Rightarrow> string" where
  "strip_marks prev_word skip [] = []"
| "strip_marks prev_word skip (c # cs) =
     (if skip > 0 then strip_marks (is_word c) (skip - 1) cs
      else if prev_word then c # strip_marks (is_word c) 0 cs
      else case mark_len (c # cs) of
             Some n \<Rightarrow> strip_marks (is_word c) (n - 1) cs
           | None \<Rightarrow> c # strip_marks (is_word c) 0 cs)"

definition trim :: "string \<Rightarrow> string" where
  "trim s = rev (dropWhile is_space (rev (dropWhile is_space s)))"

text \<open>The two patterns \<open>/Expected (.+), got (.+) in/\<close> and \<open>/Expected (.+) in/\<close>: the
  leftmost start, each group as long as it can be.\<close>

fun splits_at :: "string \<Rightarrow> string \<Rightarrow> string \<Rightarrow> (string \<times> string) list" where
  "splits_at sep pre [] = (if sep = [] then [(rev pre, [])] else [])"
| "splits_at sep pre (c # cs) =
     (if is_prefix sep (c # cs) then [(rev pre, drop (length sep) (c # cs))] else [])
     @ splits_at sep (c # pre) cs"

definition last_group :: "string \<Rightarrow> string \<Rightarrow> string option" where
  "last_group sep s =
     (case filter (\<lambda>(b, a). b \<noteq> []) (rev (splits_at sep [] s)) of
        [] \<Rightarrow> None
      | (b, a) # r \<Rightarrow> Some b)"

definition got_groups :: "string \<Rightarrow> (string \<times> string) option" where
  "got_groups s =
     (case filter (\<lambda>(b, a). b \<noteq> [] \<and> last_group '' in'' a \<noteq> None) (rev (splits_at '', got '' [] s)) of
        [] \<Rightarrow> None
      | (b, a) # r \<Rightarrow> (case last_group '' in'' a of Some g \<Rightarrow> Some (b, g) | None \<Rightarrow> None))"

definition expected_matches :: "string \<Rightarrow> (string \<times> string option) option" where
  "expected_matches m =
     (case List.map_filter (\<lambda>(b, a). got_groups a) (splits_at ''Expected '' [] m) of
        (g1, g2) # r \<Rightarrow> Some (g1, Some g2)
      | [] \<Rightarrow>
          (case List.map_filter (\<lambda>(b, a). last_group '' in'' a) (splits_at ''Expected '' [] m) of
             g1 # r \<Rightarrow> Some (g1, None)
           | [] \<Rightarrow> None))"

definition error_type :: "string \<Rightarrow> string" where
  "error_type m =
     (if str_includes m REQUIRED then ''required''
      else if str_includes m ''Expected'' then ''type'' else ''condition'')"

text \<open>Modelled from the spec: \<open>capitalize\<close> of utils.js, which is not among the sources:
  the first letter is capitalized.\<close>

definition capitalize :: "string \<Rightarrow> string" where
  "capitalize s = (case s of [] \<Rightarrow> [] | c # cs \<Rightarrow> upper_char c # cs)"

definition humanize :: "string \<Rightarrow> string" where
  "humanize name =
     concat (map (\<lambda>c. if 65 \<le> (of_char c :: nat) \<and> (of_char c :: nat) \<le> 90 then [CHR '' '', c] else [c]) name)"

definition error_message :: "string \<Rightarrow> string" where
  "error_message m =
     (if error_type m = ''required'' then ''is required''
      else case (if error_type m = ''type'' then expected_matches m else None) of
             Some (g1, g2) \<Rightarrow>
               ''must be a '' @ g1 @ (case g2 of Some g \<Rightarrow> '', not '' @ g | None \<Rightarrow> [])
           | None \<Rightarrow> trim (strip_marks False 0 m))"

definition format_error :: "string \<Rightarrow> string \<Rightarrow> verror" where
  "format_error path m =
     (let ty = error_type m;
          splitPath = split_on CHR ''.'' [] path;
          name = (if ty = ''required''
                  then (case split_on (CHR 0x27) [] m of a # b # r \<Rightarrow> Str b | _ \<Rightarrow> Undefined)
                  else Str (last splitPath));
          rest = (if ty = ''required'' then splitPath else butlast splitPath);
          message = (if truthy name \<and> (ty \<noteq> ''condition'' \<or> \<not> str_includes m ''w:'')
                     then capitalize (humanize (js_to_string name)) @ '' '' @ error_message m
                     else error_message m)
      in \<lparr> ve_name = name, ve_type = ty, ve_message = message,
           ve_path = (if length rest > 1 then Some path else None) \<rparr>)"

text \<open>What a call of \<open>check\<close> does: it returns, or throws one \<open>ValidationError\<close> (with the
  list of entries it carries), or throws another exception. \<open>None\<close> is the matcher out of
  fuel.\<close>

datatype checked = Valid | ValidationError "verror list" | Exception string

text \<open>The \<open>catch\<close> destructures \<open>path\<close> and \<open>message\<close> off what was thrown: a
  \<open>Match.Error\<close> has both; the list thrown by \<open>enforce\<close> and a \<open>TypeError\<close> have no
  \<open>path\<close>, and the list has no \<open>message\<close> either, so reading them raises inside the
  \<open>catch\<close>.\<close>

definition catch_check :: "outcome \<Rightarrow> checked" where
  "catch_check r =
     (case r of
        Pass \<Rightarrow> Valid
      | Fail m path \<Rightarrow> ValidationError [format_error path (check_message m path)]
      | Thrown s \<Rightarrow> Exception ''TypeError: Cannot read properties of undefined (reading 'split')'')"

definition catch_enforce :: "enforced \<Rightarrow> checked" where
  "catch_enforce r =
     (case r of
        Enforced \<Rightarrow> Valid
      | Errors es \<Rightarrow> Exception ''TypeError: Cannot read properties of undefined (reading 'includes')''
      | Raised s \<Rightarrow> Exception ''TypeError: Cannot read properties of undefined (reading 'split')'')"

definition dataToCheck_of :: "jv \<Rightarrow> string + jv" where
  "dataToCheck_of data =
     (if truthy data \<and> hasOperators data
      then (case transformModifier data of Inl err \<Rightarrow> Inl err | Inr t \<Rightarrow> Inr (unflatten t))
      else Inr data)"

definition shaped_of :: "jv \<Rightarrow> bool \<Rightarrow> bool \<Rightarrow> jv" where
  "shaped_of schema shaped dataHasOperators =
     (if isObject schema then
        (if truthy (getp schema ''$id'') \<or> shaped then Obj (del_prop (object_entries schema) ''$id'')
         else if dataHasOperators then deepPartialify schema else shape schema)
      else Obj [])"

definition check :: "env \<Rightarrow> nat \<Rightarrow> jv \<Rightarrow> jv \<Rightarrow> bool \<Rightarrow> bool \<Rightarrow> checked option" where
  "check e fuel data schema shaped full =
     (let dataHasOperators = (truthy data \<and> hasOperators data) in
      case dataToCheck_of data of
        Inl err \<Rightarrow> Some (Exception err)
      | Inr dataToCheck \<Rightarrow>
          (let sh = shaped_of schema shaped dataHasOperators;
               rules = getp sh ''$rules'';
               shapedSchema = del_prop (object_entries sh) ''$rules'';
               shapedSchema' = (if full then del_prop shapedSchema ''_id'' else shapedSchema);
               picking = (isObject schema \<and>
                          \<not> (dataHasOperators \<or> full \<or> (shaped \<and> \<not> truthy (getp schema ''$id''))))
           in if picking \<and> (dataToCheck = Undefined \<or> dataToCheck = Null)
              then Some (Exception ''TypeError: Cannot convert undefined or null to object'')
              else
                (let schemaToCheck =
                       (if isObject schema
                        then (if picking then pick (Obj shapedSchema') (object_keys dataToCheck)
                              else Obj shapedSchema')
                        else schema)
                 in case testSubtree e fuel dataToCheck schemaToCheck of
                      None \<Rightarrow> None
                    | Some Pass \<Rightarrow>
                        if truthy rules then Some (catch_enforce (enforce e dataToCheck rules))
                        else Some Valid
                    | Some r \<Rightarrow> Some (catch_check r))))"

section \<open>The JSON-Schema compiler (easy-schema-server.js, lines 112 to 229)\<close>

text \<open>The table \<open>typeMap\<close> as the file declares it (no additional type configured), and the
  key \<open>value?.name || value\<close> under which a type is looked up.\<close>

definition typeMap :: "string \<Rightarrow> jv" where
  "typeMap k =
     (if k = ''String'' then Str ''string''
      else if k = ''Number'' then Str ''double''
      else if k = ''Boolean'' then Str ''bool''
      else if k = ''Date'' then Str ''date''
      else if k = ''Object'' then Str ''object''
      else if k = ''Array'' then Str ''array''
      else if k = ''__integer__'' then Str ''int''
      else if k = ''Decimal'' then Str ''decimal''
      else Undefined)"

definition type_key :: "jv \<Rightarrow> string" where
  "type_key v = (if truthy (name_of v) then js_to_string (name_of v) else js_to_string v)"

definition minProps :: "jv \<Rightarrow> string" where
  "minProps t =
     (if t = Str ''int'' \<or> t = Str ''decimal'' \<or> t = Str ''double'' then ''minimum''
      else if t = Str ''string'' then ''minLength''
      else if t = Str ''array'' then ''minItems''
      else if t = Str ''object'' then ''minProperties''
      else ''undefined'')"

definition maxProps :: "jv \<Rightarrow> string" where
  "maxProps t =
     (if t = Str ''int'' \<or> t = Str ''decimal'' \<or> t = Str ''double'' then ''maximum''
      else if t = Str ''string'' then ''maxLength''
      else if t = Str ''array'' then ''maxItems''
      else if t = Str ''object'' then ''maxProperties''
      else ''undefined'')"

definition first_or_self :: "jv \<Rightarrow> jv" where
  "first_or_self c = (if Array_isArray c then nth_or_undef (elems c) 0 else c)"

text \<open>\<open>createQualifiers\<close>: the qualifiers present, under the names of the backend, in the
  order of the source.\<close>

definition createQualifiers :: "jv \<Rightarrow> (string \<times> jv) list \<Rightarrow> string + (string \<times> jv) list" where
  "createQualifiers t conds =
     (let c = Obj conds;
          q1 = (if hasOwn c ''min'' then set_prop [] (minProps t) (first_or_self (getp c ''min'')) else []);
          q2 = (if hasOwn c ''max'' then set_prop q1 (maxProps t) (first_or_self (getp c ''max'')) else q1)
      in if hasOwn c ''regex'' \<and> (first_or_self (getp c ''regex'') = Undefined \<or> first_or_self (getp c ''regex'') = Null)
         then Inl ''TypeError: Cannot read properties of undefined''
         else
           (let q3 = (if hasOwn c ''regex''
                      then set_prop q2 ''pattern'' (Str (js_to_string (first_or_self (getp c ''regex''))))
                      else q2)
            in if hasOwn c ''allow'' \<and> \<not> isArray (getp c ''allow'')
               then Inl ''TypeError: allow.some is not a function''
               else
                 (let al = elems (getp c ''allow'');
                      q4 = (if hasOwn c ''allow''
                            then set_prop q3 ''enum''
                                   (if truthy (alwErr_of al) then nth_or_undef al 0 else getp c ''allow'')
                            else q3);
                      q5 = (if hasOwn c ''unique''
                            then set_prop q4 ''uniqueItems'' (first_or_self (getp c ''unique'')) else q4);
                      q6 = (if hasOwn c ''additionalProperties''
                            then set_prop q5 ''additionalProperties'' (getp c ''additionalProperties'')
                            else q5)
                  in Inr q6)))"

definition schema_object :: "(string \<times> jv) list \<Rightarrow> string list \<Rightarrow> jv \<Rightarrow> jv" where
  "schema_object properties optionalKeys obj =
     Obj [(''bsonType'', Str ''object''),
          (''properties'', Obj properties),
          (''required'', Arr (map Str (filter (\<lambda>key. key \<notin> set optionalKeys) (map fst properties)))),
          (''additionalProperties'',
             (if getp obj ''additionalProperties'' = Undefined \<or> getp obj ''additionalProperties'' = Null
              then Bool False else getp obj ''additionalProperties''))]"

definition with_qualifiers :: "jv \<Rightarrow> jv \<Rightarrow> (string \<times> jv) list \<Rightarrow> string + jv" where
  "with_qualifiers base t conds =
     (case createQualifiers t conds of
        Inl err \<Rightarrow> Inl err
      | Inr qs \<Rightarrow> Inr (Obj (assign_all (object_entries base) qs)))"

definition leaf_schema :: "jv \<Rightarrow> jv" where
  "leaf_schema v =
     (if truthy (typeMap (type_key v)) then Obj [(''bsonType'', typeMap (type_key v))]
      else if v = Null then Obj [(''bsonType'', Str ''null'')]
      else Obj [])"

text \<open>The conditions of the compiler leave out \<open>type\<close> and \<open>where\<close>.\<close>

definition compiler_conditions :: "(string \<times> jv) list \<Rightarrow> (string \<times> jv) list" where
  "compiler_conditions kvs = del_prop (del_prop kvs ''type'') ''where''"

text \<open>\<open>createJSONSchema\<close>. \<open>cjs_field\<close> is the property computed for one value, with the
  mark that its key joins \<open>optionalKeys\<close>; \<open>cjs_props\<close> is the \<open>reduce\<close> over the entries;
  \<open>cjs_elems\<close> maps \<open>createJSONSchema({items: f}).properties.items\<close> over a list;
  \<open>cjs_array\<close> is the branch of an array; \<open>cjs_type\<close> finds the \<open>type\<close> of a constrained
  field and compiles it with the conditions. \<open>Inl\<close> is the exception raised.\<close>

fun cjs_field :: "jv \<Rightarrow> string + (jv \<times> bool)"
  and cjs_props :: "(string \<times> jv) list \<Rightarrow> string + ((string \<times> jv) list \<times> string list)"
  and cjs_elems :: "jv list \<Rightarrow> string + jv list"
  and cjs_array :: "jv list \<Rightarrow> string + jv"
  and cjs_typed :: "jv \<Rightarrow> (string \<times> jv) list \<Rightarrow> string + jv"
  and cjs_type :: "(string \<times> jv) list \<Rightarrow> (string \<times> jv) list \<Rightarrow> string + (jv \<times> bool)"
where
  "cjs_field (Maybe p) =
     (case cjs_field p of Inl err \<Rightarrow> Inl err | Inr (s, opt) \<Rightarrow> Inr (s, True))"
| "cjs_field (OneOf ps) =
     (case cjs_elems ps of Inl err \<Rightarrow> Inl err | Inr ss \<Rightarrow> Inr (Obj [(''anyOf'', Arr ss)], False))"
| "cjs_field (Obj kvs) =
     (if hasOwn (Obj kvs) ''type'' \<and> \<not> not_allowed (compiler_conditions kvs)
      then cjs_type kvs (compiler_conditions kvs)
      else (case cjs_props kvs of
              Inl err \<Rightarrow> Inl err
            | Inr (props, opts) \<Rightarrow> Inr (schema_object props opts (Obj kvs), False)))"
| "cjs_field (Arr xs) =
     (case cjs_array xs of Inl err \<Rightarrow> Inl err | Inr s \<Rightarrow> Inr (s, False))"
| "cjs_field v = Inr (leaf_schema v, False)"
| "cjs_props [] = Inr ([], [])"
| "cjs_props ((k, v) # kvs) =
     (case cjs_field v of
        Inl err \<Rightarrow> Inl err
      | Inr (s, opt) \<Rightarrow>
          (case cjs_props kvs of
             Inl err \<Rightarrow> Inl err
           | Inr (props, opts) \<Rightarrow> Inr ((k, s) # props, (if opt then [k] else []) @ opts)))"
| "cjs_elems [] = Inr []"
| "cjs_elems (v # vs) =
     (case cjs_field v of
        Inl err \<Rightarrow> Inl err
      | Inr (s, opt) \<Rightarrow> (case cjs_elems vs of Inl err \<Rightarrow> Inl err | Inr ss \<Rightarrow> Inr (s # ss)))"
| "cjs_array [] = Inl ''TypeError: Cannot destructure property type of undefined''"
| "cjs_array (x # xs) =
     (if gv_value x = Undefined \<or> gv_value x = Null
      then Inl ''TypeError: Cannot destructure property type of undefined''
      else
        (let relaxed = (gv_optional x \<or> gv_optional (getp (gv_value x) ''type''));
             tail = (if relaxed then [(''minItems'', Num 0)] else [])
         in case x of
              Arr fs \<Rightarrow>
                (case cjs_elems fs of
                   Inl err \<Rightarrow> Inl err
                 | Inr ss \<Rightarrow> Inr (Obj ([(''bsonType'', Str ''array''), (''items'', Arr ss)] @ tail)))
            | _ \<Rightarrow>
                (case cjs_field x of
                   Inl err \<Rightarrow> Inl err
                 | Inr (s, opt) \<Rightarrow> Inr (Obj ([(''bsonType'', Str ''array''), (''items'', s)] @ tail)))))"
| "cjs_typed (Obj kvs) conds =
     (case cjs_field (Obj kvs) of
        Inl err \<Rightarrow> Inl err
      | Inr (s, opt) \<Rightarrow> with_qualifiers s (Str ''object'') conds)"
| "cjs_typed (Arr xs) conds =
     (case cjs_array xs of
        Inl err \<Rightarrow> Inl err
      | Inr s \<Rightarrow> with_qualifiers s (Str ''array'') conds)"
| "cjs_typed v conds =
     (if v = Undefined \<or> v = Null then Inl ''TypeError: Cannot read properties of undefined (reading name)''
      else with_qualifiers (Obj [(''bsonType'', typeMap (type_key v))]) (typeMap (type_key v)) conds)"
| "cjs_type [] conds = Inl ''TypeError: Cannot read properties of undefined (reading name)''"
| "cjs_type ((k, v) # kvs) conds =
     (if k = ''type'' then
        (case v of
           Maybe p \<Rightarrow> (case cjs_typed p conds of Inl err \<Rightarrow> Inl err | Inr s \<Rightarrow> Inr (s, True))
         | OneOf ps \<Rightarrow>
             (case cjs_array ps of
                Inl err \<Rightarrow> Inl err
              | Inr s \<Rightarrow>
                  (case with_qualifiers s (Str ''array'') conds of
                     Inl err \<Rightarrow> Inl err
                   | Inr s' \<Rightarrow> Inr (s', False)))
         | _ \<Rightarrow> (case cjs_typed v conds of Inl err \<Rightarrow> Inl err | Inr s \<Rightarrow> Inr (s, False)))
      else cjs_type kvs conds)"

definition createJSONSchema :: "jv \<Rightarrow> string + jv" where
  "createJSONSchema obj =
     (if obj = Undefined \<or> obj = Null
      then Inl ''TypeError: Cannot convert undefined or null to object''
      else case cjs_props (object_entries obj) of
             Inl err \<Rightarrow> Inl err
           | Inr (props, opts) \<Rightarrow> Inr (schema_object props opts obj))"

section \<open>Scenarios\<close>

text \<open>An environment whose functions all return \<open>undefined\<close> and whose regular
  expressions match nothing, for the schemas that hold neither.\<close>

definition no_calls :: env where
  "no_calls = \<lparr> call = (\<lambda>i args. Inr Undefined), rtest = (\<lambda>i v. False) \<rparr>"


definition condition_entry :: "string \<Rightarrow> string \<Rightarrow> verror" where
  "condition_entry name msg =
     \<lparr>ve_name = Str name, ve_type = ''condition'', ve_message = msg, ve_path = None\<rparr>"

text \<open>\<open>{f: {type: String, min: 2, max: 4}}\<close> and \<open>{n: {type: Number, min: 0}}\<close>\<close>

definition bounded_string :: jv where
  "bounded_string = Obj [(''f'', Obj [(''type'', Ctor ''String''), (''min'', Num 2), (''max'', Num 4)])]"

definition nonneg_number :: jv where
  "nonneg_number = Obj [(''n'', Obj [(''type'', Ctor ''Number''), (''min'', Num 0)])]"










text \<open>\<open>{$set: {'items.$.qty': 3}, $push: {tags: 'x'}}\<close>\<close>

definition set_and_push :: jv where
  "set_and_push = Obj [(''$set'', Obj [(''items.$.qty'', Num 3)]), (''$push'', Obj [(''tags'', Str ''x'')])]"

text \<open>The schema that \<open>check\<close> matches an insert against (\<open>full: true\<close>, a document without
  operator keys): the shaped schema without \<open>$rules\<close> and without \<open>_id\<close>.\<close>

definition full_schema :: "jv \<Rightarrow> bool \<Rightarrow> (string \<times> jv) list" where
  "full_schema schema shaped =
     del_prop (del_prop (object_entries (shaped_of schema shaped False)) ''$rules'') ''_id''"

text \<open>\<open>{_id: String, a: Number}\<close>\<close>

definition id_and_number :: jv where
  "id_and_number = Obj [(''_id'', Ctor ''String''), (''a'', Ctor ''Number'')]"

definition unknown_id :: verror where
  "unknown_id = condition_entry ''_id'' ''_id Unknown key''"

text \<open>\<open>{f: {type: String}}\<close>, and the mapping \<open>{type: String, bogus: 1}\<close>\<close>

definition bare_type :: jv where
  "bare_type = Obj [(''f'', Obj [(''type'', Ctor ''String'')])]"

definition typed_with_unknown :: "(string \<times> jv) list" where
  "typed_with_unknown = [(''type'', Ctor ''String''), (''bogus'', Num 1)]"













section \<open>One failure, one entry\<close>




section \<open>Bounds\<close>

text \<open>The boundary scenario of C6: lengths 1 and 5 fail with a \<open>condition\<close> entry, lengths
  2, 3 and 4 pass.\<close>

lemma bound_boundary:
  "check no_calls 4 (Obj [(''f'', Str ''a'')]) bounded_string False False
     = Some (ValidationError
         [condition_entry ''f'' ''F must be at least 2 characters and at most 4 characters''])"
  "check no_calls 4 (Obj [(''f'', Str ''abcde'')]) bounded_string False False
     = Some (ValidationError
         [condition_entry ''f'' ''F must be at least 2 characters and at most 4 characters''])"
  "check no_calls 4 (Obj [(''f'', Str ''ab'')]) bounded_string False False = Some Valid"
  "check no_calls 4 (Obj [(''f'', Str ''abc'')]) bounded_string False False = Some Valid"
  "check no_calls 4 (Obj [(''f'', Str ''abcd'')]) bounded_string False False = Some Valid"
  by code_simp+

text \<open>With bounds other than zero, a fragment is pushed exactly when the count is below
  \<open>min\<close> or above \<open>max\<close>.\<close>

lemma minmax_violation_iff:
  assumes "mn \<noteq> 0" and "mx \<noteq> 0" and "count_of t x = Inr (Num c)"
  shows "chk_minmax t x (Num mn) (Num mx) = Inr [] \<longleftrightarrow> \<not> (c < mn \<or> mx < c)"
  using assms by (simp add: chk_minmax_def bound_of_def js_gt_def Let_def)

lemma minmax_violation_fragment:
  assumes "mn \<noteq> 0" and "mx \<noteq> 0" and "count_of t x = Inr (Num c)" and "c < mn \<or> mx < c"
  shows "chk_minmax t x (Num mn) (Num mx) = Inr [minmax_message t (Num mn) (Num mx) (Num c)]"
  using assms by (auto simp: chk_minmax_def bound_of_def js_gt_def Let_def)

text \<open>C6, the general part, fails on the code: a bound of zero is falsy, so lines 99, 105
  and 107 take it for no bound. With \<open>min: 0\<close> the number \<open>-5\<close> is below the bound, no
  fragment is pushed, and the document passes; the compiler, which asks
  \<open>hasOwnProperty('min')\<close>, does compile the bound as \<open>minimum: 0\<close>.\<close>

theorem zero_bound_ignored:
  "js_lt (Num (- 5)) (Num 0) \<and>
   chk_minmax (Ctor ''Number'') (Num (- 5)) (Num 0) Undefined = Inr [] \<and>
   check no_calls 4 (Obj [(''n'', Num (- 5))]) nonneg_number False False = Some Valid \<and>
   createJSONSchema nonneg_number =
     Inr (Obj [(''bsonType'', Str ''object''),
               (''properties'', Obj [(''n'', Obj [(''bsonType'', Str ''double''), (''minimum'', Num 0)])]),
               (''required'', Arr [Str ''n'']),
               (''additionalProperties'', Bool False)])"
  by code_simp

section \<open>Allowed values\<close>





section \<open>Predicates on a sibling\<close>



text \<open>A predicate fails exactly when it raises, whatever it returns: inline, and as a rule
  run on a document.\<close>

lemma inline_where_fails_iff_raises:
  "chk_where e x args (Fn a i ps) =
     (case call e i [x, Obj [(''min'', getp args ''min''), (''max'', getp args ''max''),
                              (''regex'', getp args ''regex''), (''allow'', getp args ''allow''),
                              (''unique'', getp args ''unique'')]] of
        Inl err \<Rightarrow> [''w: '' @ err]
      | Inr r \<Rightarrow> [])"
  by (simp add: chk_where_def)

lemma rule_fails_iff_raises:
  assumes "getp r ''path'' = Arr [Str k]" and "getp r ''rule'' = Fn a i ps" and "isObject data"
  shows "run_rule e data r = (case call e i [data] of Inl err \<Rightarrow> [(k, ''w: '' @ err)] | Inr v \<Rightarrow> [])"
  using assms
  by (cases data) (simp_all add: run_rule_def path_strings_def call_rule_def Let_def split: sum.splits)


section \<open>Update operators\<close>

text \<open>C8: the modifier \<open>{$set: {'items.$.qty': 3}, $push: {tags: 'x'}}\<close> is rewritten to
  the flat document \<open>{'items.0.qty': 3, tags: ['x']}\<close>, which \<open>check\<close> unflattens to
  \<open>{items: [{qty: 3}], tags: ['x']}\<close>. The positional markers \<open>$\<close>, \<open>$[name]\<close> and a
  number all become the index \<open>0\<close>; the value of an array operator is wrapped in a list of
  one element when it has no key \<open>$each\<close>, and is the list under \<open>$each\<close> otherwise.\<close>

theorem normalizes_set_and_push:
  "transformModifier set_and_push = Inr (Obj [(''items.0.qty'', Num 3), (''tags'', Arr [Str ''x''])])
   \<and> dataToCheck_of set_and_push
       = Inr (Obj [(''items'', Arr [Obj [(''qty'', Num 3)]]), (''tags'', Arr [Str ''x''])])
   \<and> replace_markers 0 ''items.$.qty'' = ''items.0.qty''
   \<and> replace_markers 0 ''items.$[elem].qty'' = ''items.0.qty''
   \<and> replace_markers 0 ''items.12.qty'' = ''items.0.qty''
   \<and> (\<forall>v ks. keys_of v = Inr ks \<longrightarrow> ''$each'' \<notin> set ks \<longrightarrow>
         transformValue True p cd bo v = Inr (Arr [v]))
   \<and> (\<forall>l rest. transformValue True p cd bo (Obj ((''$each'', l) # rest)) = Inr l)"
proof -
  have 1: "transformModifier set_and_push = Inr (Obj [(''items.0.qty'', Num 3), (''tags'', Arr [Str ''x''])])"
    by code_simp
  have 2: "dataToCheck_of set_and_push
       = Inr (Obj [(''items'', Arr [Obj [(''qty'', Num 3)]]), (''tags'', Arr [Str ''x''])])"
    by code_simp
  have 3: "replace_markers 0 ''items.$.qty'' = ''items.0.qty''" by code_simp
  have 4: "replace_markers 0 ''items.$[elem].qty'' = ''items.0.qty''" by code_simp
  have 5: "replace_markers 0 ''items.12.qty'' = ''items.0.qty''" by code_simp
  have 6: "\<forall>v ks. keys_of v = Inr ks \<longrightarrow> ''$each'' \<notin> set ks \<longrightarrow>
         transformValue True p cd bo v = Inr (Arr [v])"
    by (simp add: transformValue_def)
  have 7: "\<forall>l rest. transformValue True p cd bo (Obj ((''$each'', l) # rest)) = Inr l"
    by (simp add: transformValue_def)
  from 1 2 3 4 5 6 7 show ?thesis by blast
qed

theorem normalizes_set_and_push_witness:
  "keys_of (Str ''x'') = Inr [''0''] \<and> ''$each'' \<notin> set [''0''] \<and>
   transformValue True False False False (Str ''x'') = Inr (Arr [Str ''x''])"
proof -
  have k: "keys_of (Str ''x'') = Inr [''0'']" by code_simp
  have n: "''$each'' \<notin> set [''0'']" by simp
  from normalizes_set_and_push [of False False False] k n show ?thesis by blast
qed

section \<open>Inserts: the identity field\<close>

lemma del_prop_keys: "k \<notin> set (map fst (del_prop kvs k))"
  by (induction kvs) (auto simp: del_prop_def)

lemma map_of_del_prop: "map_of (del_prop kvs k) k = None"
  using del_prop_keys [of k kvs] by (simp add: map_of_eq_None_iff)

lemma test_entries_not_pass:
  "map_of pat k = None \<Longrightarrow> k \<in> set (map fst kvs) \<Longrightarrow> test_entries t pat kvs \<noteq> Some Pass"
proof (induction kvs)
  case Nil
  then show ?case by simp
next
  case (Cons a kvs)
  obtain k' v where a: "a = (k', v)" by (cases a)
  show ?case
  proof (cases "k' = k")
    case True
    with Cons.prems a show ?thesis by simp
  next
    case False
    with Cons a show ?thesis
      by (auto split: option.splits outcome.splits)
  qed
qed

lemma test_entries_unknown:
  "map_of pat k = None \<Longrightarrow> k \<in> set (map fst kvs) \<Longrightarrow>
   test_entries t pat (del_prop kvs k) = Some Pass \<Longrightarrow>
   test_entries t pat kvs = Some (Fail ''Unknown key'' k)"
proof (induction kvs)
  case Nil
  then show ?case by simp
next
  case (Cons a kvs)
  obtain k' v where a: "a = (k', v)" by (cases a)
  show ?case
  proof (cases "k' = k")
    case True
    with Cons.prems a show ?thesis by simp
  next
    case False
    with Cons.prems a have p: "test_entries t pat ((k', v) # del_prop kvs k) = Some Pass"
      by (simp add: del_prop_def)
    then have "test_entries t pat (del_prop kvs k) = Some Pass"
      by (auto split: option.splits outcome.splits)
    with Cons False a have "test_entries t pat kvs = Some (Fail ''Unknown key'' k)" by simp
    with p show ?thesis using a
      by (auto split: option.splits outcome.splits)
  qed
qed

lemma path_key_nonempty: "path_key k \<noteq> []"
  by (auto simp: path_key_def is_identifier_def split: list.splits)

lemma prependPath_nonempty: "prependPath k p \<noteq> []"
  by (simp add: prependPath_def path_key_nonempty)

lemma test_entries_fail_path:
  "test_entries t pat kvs = Some (Fail m []) \<Longrightarrow> m = ''Unknown key''"
proof (induction kvs)
  case Nil
  then show ?case by simp
next
  case (Cons a kvs)
  obtain k' v where a: "a = (k', v)" by (cases a)
  with Cons show ?case
    by (auto simp: prependPath_nonempty split: option.splits outcome.splits)
qed

lemma missing_keys_subset: "set (missing_keys pat kvs) \<subseteq> set (map fst pat)"
  by (auto simp: missing_keys_def)

lemma test_object_never_missing:
  assumes "k \<notin> set (map fst pat)"
  shows "test_object t pat (Obj kvs) \<noteq> Some (Fail (REQUIRED @ '' '' @ [CHR 0x27] @ k @ [CHR 0x27]) [])"
proof
  assume f: "test_object t pat (Obj kvs) = Some (Fail (REQUIRED @ '' '' @ [CHR 0x27] @ k @ [CHR 0x27]) [])"
  show False
  proof (cases "test_entries t pat kvs")
    case None
    with f show False by (simp add: test_object_def)
  next
    case (Some r)
    show False
    proof (cases r)
      case Pass
      with Some f obtain k' ks where m: "missing_keys pat kvs = k' # ks" and "k' = k"
        by (auto simp: test_object_def split: list.splits)
      with missing_keys_subset [of pat kvs] assms show False by auto
    next
      case (Fail m p)
      with Some f have "test_entries t pat kvs = Some (Fail (REQUIRED @ '' '' @ [CHR 0x27] @ k @ [CHR 0x27]) [])"
        by (simp add: test_object_def)
      from test_entries_fail_path [OF this] show False by (simp add: REQUIRED_def)
    next
      case (Thrown s)
      with Some f show False by (simp add: test_object_def)
    qed
  qed
qed

lemma test_object_not_pass:
  "map_of pat k = None \<Longrightarrow> k \<in> set (map fst kvs) \<Longrightarrow> test_object t pat (Obj kvs) \<noteq> Some Pass"
  using test_entries_not_pass [of pat k kvs t]
  by (auto simp: test_object_def split: option.splits outcome.splits list.splits)

lemma check_full_unfold:
  assumes "isObject schema" and "\<not> hasOperators (Obj kvs)"
  shows "check e fuel (Obj kvs) schema shaped True =
     (case testSubtree e fuel (Obj kvs) (Obj (full_schema schema shaped)) of
        None \<Rightarrow> None
      | Some Pass \<Rightarrow>
          if truthy (getp (shaped_of schema shaped False) ''$rules'')
          then Some (catch_enforce (enforce e (Obj kvs) (getp (shaped_of schema shaped False) ''$rules'')))
          else Some Valid
      | Some r \<Rightarrow> Some (catch_check r))"
  using assms by (simp add: check_def dataToCheck_of_def full_schema_def Let_def)


lemma unknown_id_entry:
  "catch_check (Fail ''Unknown key'' ''_id'') = ValidationError [unknown_id]"
  by code_simp

lemma test_object_pass_entries:
  "test_object t pat (Obj kvs) = Some Pass \<Longrightarrow> test_entries t pat kvs = Some Pass"
  by (auto simp: test_object_def split: option.splits outcome.splits list.splits)

text \<open>C10: with \<open>full: true\<close> the checked schema has no key \<open>_id\<close>. A document
  without \<open>_id\<close> never fails for the missing key \<open>_id\<close>; a document with \<open>_id\<close> is
  never valid, whatever the fuel, and when the rest of it matches, the failure is the
  unknown key \<open>_id\<close>.\<close>

theorem full_check_removes_id:
  assumes "isObject schema" and "\<not> hasOperators (Obj kvs)"
  shows "''_id'' \<notin> set (map fst (full_schema schema shaped))
    \<and> check e fuel (Obj kvs) schema shaped True =
       (case testSubtree e fuel (Obj kvs) (Obj (full_schema schema shaped)) of
          None \<Rightarrow> None
        | Some Pass \<Rightarrow>
            if truthy (getp (shaped_of schema shaped False) ''$rules'')
            then Some (catch_enforce (enforce e (Obj kvs) (getp (shaped_of schema shaped False) ''$rules'')))
            else Some Valid
        | Some r \<Rightarrow> Some (catch_check r))
    \<and> (''_id'' \<notin> set (map fst kvs) \<longrightarrow>
         testSubtree e fuel (Obj kvs) (Obj (full_schema schema shaped))
           \<noteq> Some (Fail (REQUIRED @ '' '' @ [CHR 0x27] @ ''_id'' @ [CHR 0x27]) []))
    \<and> (''_id'' \<in> set (map fst kvs) \<longrightarrow> check e fuel (Obj kvs) schema shaped True \<noteq> Some Valid)
    \<and> (''_id'' \<in> set (map fst kvs) \<and>
         testSubtree e (Suc n) (Obj (del_prop kvs ''_id'')) (Obj (full_schema schema shaped)) = Some Pass \<longrightarrow>
         check e (Suc n) (Obj kvs) schema shaped True = Some (ValidationError [unknown_id]))"
proof -
  let ?pat = "full_schema schema shaped"
  have nk: "''_id'' \<notin> set (map fst ?pat)"
    unfolding full_schema_def by (rule del_prop_keys)
  have mo: "map_of ?pat ''_id'' = None"
    unfolding full_schema_def by (rule map_of_del_prop)
  have unf: "\<And>f. check e f (Obj kvs) schema shaped True =
       (case testSubtree e f (Obj kvs) (Obj ?pat) of
          None \<Rightarrow> None
        | Some Pass \<Rightarrow>
            if truthy (getp (shaped_of schema shaped False) ''$rules'')
            then Some (catch_enforce (enforce e (Obj kvs) (getp (shaped_of schema shaped False) ''$rules'')))
            else Some Valid
        | Some r \<Rightarrow> Some (catch_check r))"
    using assms by (rule check_full_unfold)
  have miss: "testSubtree e fuel (Obj kvs) (Obj ?pat)
           \<noteq> Some (Fail (REQUIRED @ '' '' @ [CHR 0x27] @ ''_id'' @ [CHR 0x27]) [])"
  proof (cases fuel)
    case 0
    then show ?thesis by simp
  next
    case (Suc m)
    with test_object_never_missing [OF nk] show ?thesis by simp
  qed
  have rej: "check e fuel (Obj kvs) schema shaped True \<noteq> Some Valid"
    if "''_id'' \<in> set (map fst kvs)"
  proof (cases fuel)
    case 0
    then show ?thesis by (simp add: unf)
  next
    case (Suc m)
    from test_object_not_pass [OF mo that]
    have "testSubtree e fuel (Obj kvs) (Obj ?pat) \<noteq> Some Pass" using Suc by simp
    then show ?thesis
      by (auto simp: unf catch_check_def split: option.splits outcome.splits)
  qed
  have unk: "check e (Suc n) (Obj kvs) schema shaped True = Some (ValidationError [unknown_id])"
    if i: "''_id'' \<in> set (map fst kvs)"
      and r: "testSubtree e (Suc n) (Obj (del_prop kvs ''_id'')) (Obj ?pat) = Some Pass"
  proof -
    from r have "test_entries (\<lambda>v p. testSubtree e n v p) ?pat (del_prop kvs ''_id'') = Some Pass"
      by (simp add: test_object_pass_entries)
    from test_entries_unknown [OF mo i this]
    have "testSubtree e (Suc n) (Obj kvs) (Obj ?pat) = Some (Fail ''Unknown key'' ''_id'')"
      by (simp add: test_object_def)
    then show ?thesis by (simp add: unf unknown_id_entry)
  qed
  from nk unf [of fuel] miss rej unk show ?thesis by blast
qed

theorem full_check_removes_id_witness:
  "isObject id_and_number \<and> \<not> hasOperators (Obj [(''_id'', Str ''x''), (''a'', Num 1)])
   \<and> testSubtree no_calls 2 (Obj (del_prop [(''_id'', Str ''x''), (''a'', Num 1)] ''_id''))
        (Obj (full_schema id_and_number False)) = Some Pass
   \<and> check no_calls 2 (Obj [(''_id'', Str ''x''), (''a'', Num 1)]) id_and_number False True
        = Some (ValidationError [unknown_id])
   \<and> check no_calls 2 (Obj [(''a'', Num 1)]) id_and_number False True = Some Valid"
proof -
  have a: "isObject id_and_number" by (simp add: id_and_number_def)
  have b: "\<not> hasOperators (Obj [(''_id'', Str ''x''), (''a'', Num 1)])" by code_simp
  have c: "testSubtree no_calls (Suc 1) (Obj (del_prop [(''_id'', Str ''x''), (''a'', Num 1)] ''_id''))
        (Obj (full_schema id_and_number False)) = Some Pass" by code_simp
  have d: "''_id'' \<in> set (map fst [(''_id'', Str ''x''), (''a'', Num 1)])" by simp
  have v: "check no_calls 2 (Obj [(''a'', Num 1)]) id_and_number False True = Some Valid" by code_simp
  from full_check_removes_id [OF a b, of False no_calls 0 1] c d
  have "check no_calls (Suc 1) (Obj [(''_id'', Str ''x''), (''a'', Num 1)]) id_and_number False True
        = Some (ValidationError [unknown_id])" by blast
  with a b c v show ?thesis by (simp add: numeral_2_eq_2)
qed

section \<open>Mappings with a type key\<close>

lemma del_where_allowed: "not_allowed (del_prop conds ''where'') = not_allowed conds"
  by (induction conds) (auto simp: not_allowed_def del_prop_def allowed_def)

lemma compiler_conditions_allowed:
  "not_allowed (compiler_conditions kvs) = not_allowed (conditions_of kvs)"
  by (simp add: compiler_conditions_def conditions_of_def del_where_allowed)

text \<open>C4, as the spec states it, fails for a mapping whose only key is \<open>type\<close>: all of
  its other keys (there are none) are allowed, and the shaper stores the bare type, not a
  constrained node; with a qualifier beside \<open>type\<close> the node is constrained.\<close>

theorem bare_type_is_plain:
  "hasOwn (Obj [(''type'', Ctor ''String'')]) ''type''
   \<and> \<not> not_allowed (conditions_of [(''type'', Ctor ''String'')])
   \<and> shape bare_type = Obj [(''f'', Ctor ''String'')]
   \<and> shape bounded_string
        = Obj [(''f'', WhereP (Obj [(''type'', Ctor ''String''), (''min'', Num 2), (''max'', Num 4)]))]"
  by code_simp

text \<open>C4, as the code has it. For a mapping with a \<open>type\<close> key: when a key other than
  \<open>type\<close> is outside the allowed set, the shaper stores the mapping shaped as a nested
  object, and the compiler compiles it as a nested object; when all are allowed and there
  is at least one, the shaper stores a constrained node (inside an optional when the type
  is optional); with no key but \<open>type\<close> it stores the type itself; and in both of these
  cases the compiler compiles the type with its qualifiers.\<close>

theorem type_mapping_dispatch:
  assumes "hasOwn (Obj kvs) ''type''"
  shows "(not_allowed (conditions_of kvs) \<longrightarrow>
            fst (sculpt_field opt cur skip isOpt k (Obj kvs))
              = maybeOptionalize opt isOpt
                  (Obj (fst (sculpt_props opt (if skip then cur else cur @ [k]) False False kvs)))
            \<and> cjs_field (Obj kvs)
              = (case cjs_props kvs of
                   Inl err \<Rightarrow> Inl err
                 | Inr (props, opts) \<Rightarrow> Inr (schema_object props opts (Obj kvs), False)))
       \<and> (\<not> not_allowed (conditions_of kvs) \<and> conditions_of kvs \<noteq> [] \<longrightarrow>
            fst (sculpt_field opt cur skip isOpt k (Obj kvs))
              = (if gv_optional (getp (Obj kvs) ''type'')
                 then Optional (WhereP (Obj ((''type'', gv_value (getp (Obj kvs) ''type'')) #
                        (if deps_of k (getp (Obj (conditions_of kvs)) ''where'') \<noteq> []
                         then del_prop (conditions_of kvs) ''where'' else conditions_of kvs))))
                 else maybeOptionalize opt isOpt
                        (WhereP (Obj ((''type'', getp (Obj kvs) ''type'') #
                        (if deps_of k (getp (Obj (conditions_of kvs)) ''where'') \<noteq> []
                         then del_prop (conditions_of kvs) ''where'' else conditions_of kvs))))))
       \<and> (conditions_of kvs = [] \<longrightarrow>
            fst (sculpt_field opt cur skip isOpt k (Obj kvs))
              = maybeOptionalize opt isOpt (getp (Obj kvs) ''type''))
       \<and> (\<not> not_allowed (conditions_of kvs) \<longrightarrow>
            cjs_field (Obj kvs) = cjs_type kvs (compiler_conditions kvs))"
proof -
  have e: "conditions_of kvs = [] \<Longrightarrow> \<not> not_allowed (conditions_of kvs)"
    by (simp add: not_allowed_def)
  from assms e show ?thesis
    by (auto simp: Let_def compiler_conditions_allowed constrained_def Where_def split: prod.splits)
qed

theorem type_mapping_dispatch_witness:
  "hasOwn (Obj typed_with_unknown) ''type'' \<and> not_allowed (conditions_of typed_with_unknown)
   \<and> fst (sculpt_field False [] False False ''d'' (Obj typed_with_unknown))
       = Obj [(''type'', Ctor ''String''), (''bogus'', Num 1)]
   \<and> hasOwn (Obj [(''type'', Ctor ''String''), (''min'', Num 2)]) ''type''
   \<and> \<not> not_allowed (conditions_of [(''type'', Ctor ''String''), (''min'', Num 2)])
   \<and> conditions_of [(''type'', Ctor ''String''), (''min'', Num 2)] \<noteq> []
   \<and> fst (sculpt_field False [] False False ''f'' (Obj [(''type'', Ctor ''String''), (''min'', Num 2)]))
       = WhereP (Obj [(''type'', Ctor ''String''), (''min'', Num 2)])
   \<and> cjs_field (Obj [(''type'', Ctor ''String''), (''min'', Num 2)])
       = Inr (Obj [(''bsonType'', Str ''string''), (''minLength'', Num 2)], False)
   \<and> conditions_of [(''type'', Ctor ''String'')] = []
   \<and> fst (sculpt_field False [] False False ''f'' (Obj [(''type'', Ctor ''String'')])) = Ctor ''String''"
proof -
  have a: "hasOwn (Obj typed_with_unknown) ''type''" by (simp add: typed_with_unknown_def)
  have b: "not_allowed (conditions_of typed_with_unknown)" by code_simp
  have c: "hasOwn (Obj [(''type'', Ctor ''String''), (''min'', Num 2)]) ''type''" by simp
  have d: "\<not> not_allowed (conditions_of [(''type'', Ctor ''String''), (''min'', Num 2)])" by code_simp
  have d': "conditions_of [(''type'', Ctor ''String''), (''min'', Num 2)] = [(''min'', Num 2)]" by code_simp
  have f: "hasOwn (Obj [(''type'', Ctor ''String'')]) ''type''" by simp
  have g: "conditions_of [(''type'', Ctor ''String'')] = []" by code_simp
  have s: "fst (sculpt_props False [''d''] False False typed_with_unknown)
            = [(''type'', Ctor ''String''), (''bogus'', Num 1)]" by code_simp
  have q: "cjs_type [(''type'', Ctor ''String''), (''min'', Num 2)]
             (compiler_conditions [(''type'', Ctor ''String''), (''min'', Num 2)])
           = Inr (Obj [(''bsonType'', Str ''string''), (''minLength'', Num 2)], False)" by code_simp
  have dp: "deps_of ''f'' (getp (Obj [(''min'', Num 2)]) ''where'') = []" by code_simp
  from type_mapping_dispatch [OF a, of False "[]" False False "''d''"] b s
  have 1: "fst (sculpt_field False [] False False ''d'' (Obj typed_with_unknown))
       = Obj [(''type'', Ctor ''String''), (''bogus'', Num 1)]"
    by (simp add: maybeOptionalize_def)
  from type_mapping_dispatch [OF c, of False "[]" False False "''f''"] d d' dp q
  have 2: "fst (sculpt_field False [] False False ''f'' (Obj [(''type'', Ctor ''String''), (''min'', Num 2)]))
       = WhereP (Obj [(''type'', Ctor ''String''), (''min'', Num 2)])
     \<and> cjs_field (Obj [(''type'', Ctor ''String''), (''min'', Num 2)])
       = Inr (Obj [(''bsonType'', Str ''string''), (''minLength'', Num 2)], False)"
    by (simp add: maybeOptionalize_def)
  from type_mapping_dispatch [OF f, of False "[]" False False "''f''"] g
  have 3: "fst (sculpt_field False [] False False ''f'' (Obj [(''type'', Ctor ''String'')])) = Ctor ''String''"
    by (simp add: maybeOptionalize_def)
  from a b c d d' g 1 2 3 show ?thesis by simp
qed

section \<open>The deep-partial schema\<close>
















section \<open>The compiler and the validator\<close>





















end
